theory Spec2Isabelle
  imports Complex_Main
begin

chapter \<open>Schema-aligned parsing: the type coercer and the orchestrator\<close>

text \<open>
  A shallow embedding of the reading half of \<^verbatim>\<open>baml-sap-ts\<close>: the type coercer of
  \<^verbatim>\<open>type-coercer.ts\<close> (\<^verbatim>\<open>coerceValue\<close> and the functions below it), which walks a
  dynamic value against a schema and returns a value, an error list and a coercion
  trace, and the entry points \<^verbatim>\<open>parseResponse\<close> and \<^verbatim>\<open>parsePartialResponse\<close> of
  \<^verbatim>\<open>index.ts\<close>. Every definition carries the name of the function it embeds.
\<close>

section \<open>Dynamic values\<close>

subsection \<open>Numbers\<close>

text \<open>
  A number is a double: a finite one, embedded in the rationals, or \<^verbatim>\<open>NaN\<close>, or one of
  the two infinities. The coercer compares numbers, truncates them and takes remainders,
  and these operations are exact on finite doubles. The two zeros are one number: the
  coercer cannot tell them apart.
\<close>

datatype number = Fin rat | NaN | PosInf | NegInf

fun numLess :: "number \<Rightarrow> number \<Rightarrow> bool" where
  \<comment> \<open>\<^verbatim>\<open>a < b\<close>; every comparison with \<^verbatim>\<open>NaN\<close> is false\<close>
  "numLess (Fin a) (Fin b) = (a < b)"
| "numLess (Fin a) PosInf = True"
| "numLess NegInf (Fin b) = True"
| "numLess NegInf PosInf = True"
| "numLess a b = False"

definition numLessEq :: "number \<Rightarrow> number \<Rightarrow> bool" where
  \<comment> \<open>\<^verbatim>\<open>a <= b\<close>\<close>
  "numLessEq a b = (numLess a b \<or> (a = b \<and> a \<noteq> NaN))"

fun negate :: "number \<Rightarrow> number" where
  "negate (Fin q) = Fin (- q)"
| "negate NaN = NaN"
| "negate PosInf = NegInf"
| "negate NegInf = PosInf"

fun isInteger :: "number \<Rightarrow> bool" where
  \<comment> \<open>\<^verbatim>\<open>Number.isInteger\<close>\<close>
  "isInteger (Fin q) = (of_int \<lfloor>q\<rfloor> = q)"
| "isInteger x = False"

fun trunc :: "number \<Rightarrow> number" where
  \<comment> \<open>\<^verbatim>\<open>Math.trunc\<close>\<close>
  "trunc (Fin q) = Fin (if 0 \<le> q then of_int \<lfloor>q\<rfloor> else of_int \<lceil>q\<rceil>)"
| "trunc x = x"

fun remainderNonZero :: "number \<Rightarrow> rat \<Rightarrow> bool" where
  \<comment> \<open>\<^verbatim>\<open>num % m !== 0\<close> for a finite \<^verbatim>\<open>m\<close>: the remainder of the truncated division;
      for \<^verbatim>\<open>m = 0\<close>, and for a \<^verbatim>\<open>num\<close> that is not finite, the remainder is \<^verbatim>\<open>NaN\<close>,
      which differs from 0\<close>
  "remainderNonZero (Fin q) m =
     (if m = 0 then True
      else q - m * (if 0 \<le> q / m then of_int \<lfloor>q / m\<rfloor> else of_int \<lceil>q / m\<rceil>) \<noteq> 0)"
| "remainderNonZero x m = True"

function bitLength :: "nat \<Rightarrow> nat" where
  \<comment> \<open>the number of binary digits\<close>
  "bitLength n = (if n = 0 then 0 else Suc (bitLength (n div 2)))"
  by pat_completeness auto
termination
  by (relation "measure id") auto

declare bitLength.simps [simp del]

definition nearestDouble :: "nat \<Rightarrow> number" where
  \<comment> \<open>the double nearest to a natural number, ties to the even significand: a double
      has 53 significant bits, and from \<open>2\<^sup>1\<^sup>0\<^sup>2\<^sup>4 - 2\<^sup>9\<^sup>7\<^sup>0\<close> on the nearest double is
      \<^verbatim>\<open>Infinity\<close>\<close>
  "nearestDouble n =
     (if n < 2 ^ 53 then Fin (of_nat n)
      else let e = bitLength n - 53;
               q = n div 2 ^ e;
               r = n mod 2 ^ e;
               up = (2 ^ (e - 1) < r \<or> (r = 2 ^ (e - 1) \<and> odd q));
               m = (if up then q + 1 else q) * 2 ^ e
           in if 2 ^ 1024 \<le> m then PosInf else Fin (of_nat m))"

subsection \<open>Values\<close>

text \<open>
  The coercer of \<^verbatim>\<open>type-coercer.ts\<close> receives a value of TypeScript type
  \<^verbatim>\<open>unknown\<close>. The values of the model are the JSON values produced by the extractor,
  with all numbers, \<^verbatim>\<open>undefined\<close>, which the coercer itself writes into its results,
  and the functions of the host, which the coercer meets when it reads a property that
  an object inherits (such as \<^verbatim>\<open>constructor\<close>). Strings are sequences of code units
  below 256. An object is a plain object (its prototype is \<^verbatim>\<open>Object.prototype\<close>), given
  by its own enumerable properties in the order in which \<^verbatim>\<open>Object.entries\<close> lists them;
  an array is a plain array without holes.
\<close>

datatype jsval =
    VUndefined
  | VNull
  | VBool bool
  | VNumber number
  | VStr string
  | VArr "jsval list"
  | VObj "(string \<times> jsval) list"
  | VFunction string
      \<comment> \<open>a function of the host, by name\<close>

abbreviation VNum :: "rat \<Rightarrow> jsval" where
  "VNum q \<equiv> VNumber (Fin q)"

fun typeof :: "jsval \<Rightarrow> string" where
  "typeof VUndefined = ''undefined''"
| "typeof VNull = ''object''"
| "typeof (VBool b) = ''boolean''"
| "typeof (VNumber x) = ''number''"
| "typeof (VStr s) = ''string''"
| "typeof (VArr xs) = ''object''"
| "typeof (VObj kvs) = ''object''"
| "typeof (VFunction f) = ''function''"

definition nullish :: "jsval \<Rightarrow> bool" where
  \<comment> \<open>\<^verbatim>\<open>value === null || value === undefined\<close>\<close>
  "nullish v = (v = VNull \<or> v = VUndefined)"

fun isArray :: "jsval \<Rightarrow> bool" where
  "isArray (VArr xs) = True"
| "isArray v = False"

fun truthy :: "jsval \<Rightarrow> bool" where
  "truthy VUndefined = False"
| "truthy VNull = False"
| "truthy (VBool b) = b"
| "truthy (VNumber x) = (x \<noteq> Fin 0 \<and> x \<noteq> NaN)"
| "truthy (VStr s) = (s \<noteq> [])"
| "truthy (VArr xs) = True"
| "truthy (VObj kvs) = True"
| "truthy (VFunction f) = True"

fun strictEq :: "jsval \<Rightarrow> jsval \<Rightarrow> bool" where
  \<comment> \<open>\<^verbatim>\<open>a === b\<close>: primitives by value (\<^verbatim>\<open>NaN\<close> equals nothing), arrays, objects and
      functions by identity; the two sides of every comparison of the coercer are never
      the same array or object, and a function of the host is identified by its name\<close>
  "strictEq VUndefined VUndefined = True"
| "strictEq VNull VNull = True"
| "strictEq (VBool a) (VBool b) = (a = b)"
| "strictEq (VNumber a) (VNumber b) = (a = b \<and> a \<noteq> NaN)"
| "strictEq (VStr a) (VStr b) = (a = b)"
| "strictEq (VFunction a) (VFunction b) = (a = b)"
| "strictEq a b = False"

definition arrayIncludes :: "jsval list \<Rightarrow> jsval \<Rightarrow> bool" where
  \<comment> \<open>\<^verbatim>\<open>xs.includes(v)\<close>: as \<^verbatim>\<open>===\<close>, but \<^verbatim>\<open>NaN\<close> is found\<close>
  "arrayIncludes xs v = list_ex (\<lambda>a. strictEq a v \<or> (a = VNumber NaN \<and> v = VNumber NaN)) xs"

subsection \<open>The host\<close>

text \<open>
  Operations of the JavaScript runtime that the model leaves uninterpreted. They are
  parameters of every function below.
\<close>

record host =
  fracToString :: "rat \<Rightarrow> string"
    \<comment> \<open>\<^verbatim>\<open>String(x)\<close> for a finite number that is not an integer below \<open>2\<^sup>5\<^sup>3\<close> in magnitude\<close>
  functionToString :: "string \<Rightarrow> string"
    \<comment> \<open>\<^verbatim>\<open>String(f)\<close> for a function of the host\<close>
  jsonParse :: "string \<Rightarrow> jsval option"
    \<comment> \<open>\<^verbatim>\<open>JSON.parse\<close>; \<open>None\<close> when it throws\<close>
  jsonStringify :: "jsval \<Rightarrow> string"
    \<comment> \<open>\<^verbatim>\<open>JSON.stringify\<close>\<close>
  regExpTest :: "string \<Rightarrow> string \<Rightarrow> bool"
    \<comment> \<open>\<^verbatim>\<open>new RegExp(pattern).test(s)\<close>; the patterns of a schema are taken to be well formed\<close>
  parseFloat :: "string \<Rightarrow> number"
    \<comment> \<open>\<^verbatim>\<open>parseFloat\<close>\<close>
  toNumber :: "jsval \<Rightarrow> number"
    \<comment> \<open>the conversion to a number of a string, an array, an object or a function\<close>
  objectPrototype :: "string \<Rightarrow> jsval option"
    \<comment> \<open>the members of \<^verbatim>\<open>Object.prototype\<close>, which every plain object and every array
        inherits: \<^verbatim>\<open>Object.prototype[key]\<close> for a \<^verbatim>\<open>key in Object.prototype\<close>, and \<open>None\<close>
        for every other key. The members are functions, but for \<^verbatim>\<open>__proto__\<close>, which
        reads as the prototype itself, an object with no enumerable property.\<close>
  arrayPrototype :: "string \<Rightarrow> bool"
    \<comment> \<open>\<^verbatim>\<open>key in Array.prototype\<close>, for the members of its own\<close>

subsection \<open>Object access\<close>

definition inPlainObject :: "host \<Rightarrow> (string \<times> 'a) list \<Rightarrow> string \<Rightarrow> bool" where
  \<comment> \<open>\<^verbatim>\<open>key in obj\<close> for a plain object: a property of its own, or an inherited one\<close>
  "inPlainObject rt kvs k = (k \<in> set (map fst kvs) \<or> objectPrototype rt k \<noteq> None)"

definition lookupKey :: "host \<Rightarrow> (string \<times> jsval) list \<Rightarrow> string \<Rightarrow> jsval" where
  \<comment> \<open>\<^verbatim>\<open>obj[key]\<close> for a plain object: the property of its own, else the inherited
      member, else \<^verbatim>\<open>undefined\<close>\<close>
  "lookupKey rt kvs k =
     (case map_of kvs k of
        Some v \<Rightarrow> v
      | None \<Rightarrow> (case objectPrototype rt k of Some member \<Rightarrow> member | None \<Rightarrow> VUndefined))"

fun setKey :: "(string \<times> 'a) list \<Rightarrow> string \<Rightarrow> 'a \<Rightarrow> (string \<times> 'a) list" where
  \<comment> \<open>overwrite a property in place, or append a new one\<close>
  "setKey [] k v = [(k, v)]"
| "setKey ((k', v') # kvs) k v = (if k' = k then (k, v) # kvs else (k', v') # setKey kvs k v)"

definition assignAll :: "(string \<times> 'a) list \<Rightarrow> (string \<times> 'a) list \<Rightarrow> (string \<times> 'a) list" where
  \<comment> \<open>a run of assignments \<^verbatim>\<open>obj[k] = v\<close> to a plain object, in order; also
      \<^verbatim>\<open>Object.assign(obj, src)\<close>. An assignment to \<^verbatim>\<open>__proto__\<close> reaches the setter that
      the object inherits and gives the object no property of its own.\<close>
  "assignAll obj kvs = fold (\<lambda>(k, v) acc. if k = ''__proto__'' then acc else setKey acc k v) kvs obj"

subsection \<open>Strings\<close>

definition digitChar :: "nat \<Rightarrow> char" where
  "digitChar d = ''0123456789'' ! d"

function showNat :: "nat \<Rightarrow> string" where
  "showNat n = (if n < 10 then [digitChar n] else showNat (n div 10) @ [digitChar (n mod 10)])"
  by pat_completeness auto
termination
  by (relation "measure id") auto

declare showNat.simps [simp del]

fun numToString :: "host \<Rightarrow> number \<Rightarrow> string" where
  \<comment> \<open>\<^verbatim>\<open>String(x)\<close> for a number: an integer below \<open>2\<^sup>5\<^sup>3\<close> in magnitude prints as its
      decimal digits\<close>
  "numToString rt (Fin q) =
     (if of_int \<lfloor>q\<rfloor> = q \<and> \<bar>q\<bar> < 9007199254740992
      then (if q < 0 then ''-'' @ showNat (nat (- \<lfloor>q\<rfloor>)) else showNat (nat \<lfloor>q\<rfloor>))
      else fracToString rt q)"
| "numToString rt NaN = ''NaN''"
| "numToString rt PosInf = ''Infinity''"
| "numToString rt NegInf = ''-Infinity''"

fun joinWith :: "string \<Rightarrow> string list \<Rightarrow> string" where
  \<comment> \<open>\<^verbatim>\<open>parts.join(sep)\<close>\<close>
  "joinWith sep [] = []"
| "joinWith sep [x] = x"
| "joinWith sep (x # y # ys) = x @ sep @ joinWith sep (y # ys)"

fun jsString :: "host \<Rightarrow> jsval \<Rightarrow> string" where
  \<comment> \<open>\<^verbatim>\<open>String(value)\<close>\<close>
  "jsString rt VUndefined = ''undefined''"
| "jsString rt VNull = ''null''"
| "jsString rt (VBool b) = (if b then ''true'' else ''false'')"
| "jsString rt (VNumber x) = numToString rt x"
| "jsString rt (VStr s) = s"
| "jsString rt (VArr xs) = joinWith '','' (map (\<lambda>x. if x = VNull \<or> x = VUndefined then [] else jsString rt x) xs)"
| "jsString rt (VObj kvs) = ''[object Object]''"
| "jsString rt (VFunction f) = functionToString rt f"

definition toLowerChar :: "char \<Rightarrow> char" where
  \<comment> \<open>the upper-case letters below 256 are the code units 65 to 90 and 192 to 222 but 215;
      their lower-case letters are 32 above, which is bit 5 set\<close>
  "toLowerChar c =
     (let n = (of_char c :: nat)
      in if (65 \<le> n \<and> n \<le> 90) \<or> (192 \<le> n \<and> n \<le> 222 \<and> n \<noteq> 215)
         then (case c of Char b0 b1 b2 b3 b4 b5 b6 b7 \<Rightarrow> Char b0 b1 b2 b3 b4 True b6 b7)
         else c)"

definition toLowerCase :: "string \<Rightarrow> string" where
  "toLowerCase s = map toLowerChar s"

definition isWhiteSpace :: "char \<Rightarrow> bool" where
  "isWhiteSpace c = ((of_char c :: nat) \<in> {9, 10, 11, 12, 13, 32, 160})"

definition isDigit :: "char \<Rightarrow> bool" where
  "isDigit c = (48 \<le> (of_char c :: nat) \<and> (of_char c :: nat) \<le> 57)"

definition digitsValue :: "string \<Rightarrow> nat" where
  "digitsValue ds = foldl (\<lambda>acc c. 10 * acc + ((of_char c :: nat) - 48)) 0 ds"

definition parseInt10 :: "string \<Rightarrow> number" where
  \<comment> \<open>\<^verbatim>\<open>parseInt(s, 10)\<close>: leading white space is skipped, a sign is read, and the longest
      run of decimal digits that follows is the integer that is read; the result is
      \<^verbatim>\<open>NaN\<close> when the run is empty, and else the double nearest to the integer, with
      the sign\<close>
  "parseInt10 s =
     (let t = dropWhile isWhiteSpace s;
          neg = (case t of c # r \<Rightarrow> c = CHR ''-'' | [] \<Rightarrow> False);
          u = (case t of c # r \<Rightarrow> if c = CHR ''-'' \<or> c = CHR ''+'' then r else t | [] \<Rightarrow> []);
          ds = takeWhile isDigit u
      in if ds = [] then NaN
         else if neg then negate (nearestDouble (digitsValue ds)) else nearestDouble (digitsValue ds))"
section \<open>Schemas and options\<close>

text \<open>
  A schema node is one of the kinds the coercer dispatches on. Every node may carry a
  \<^verbatim>\<open>default\<close>, the first argument of each constructor. The kinds of TypeBox outside
  this closed set (which \<^verbatim>\<open>coerceInternal\<close> hands to \<^verbatim>\<open>coerceJsonSchemaType\<close> or
  to \<^verbatim>\<open>TypeBoxValue.Decode\<close>) are not modelled. The bounds that a schema puts on
  lengths and on numbers are finite numbers.
\<close>

record strConstraints =
  minLength :: "rat option"
  maxLength :: "rat option"
  pattern :: "string option"
  format :: "string option"

record numConstraints =
  minimum :: "rat option"
  maximum :: "rat option"
  exclusiveMinimum :: "rat option"
  exclusiveMaximum :: "rat option"
  multipleOf :: "rat option"

datatype schema =
    TString "jsval option" strConstraints
  | TNumber "jsval option" numConstraints
  | TInteger "jsval option" numConstraints
  | TBoolean "jsval option"
  | TNull "jsval option"
  | TAny "jsval option"
  | TUnknown "jsval option"
  | TLiteral "jsval option" jsval
      \<comment> \<open>\<^verbatim>\<open>const\<close>\<close>
  | TEnum "jsval option" "jsval list"
      \<comment> \<open>\<^verbatim>\<open>enum\<close>\<close>
  | TArray "jsval option" schema
      \<comment> \<open>\<^verbatim>\<open>items\<close>\<close>
  | TTuple "jsval option" "schema list" "(bool + schema) option"
      \<comment> \<open>\<^verbatim>\<open>items\<close>, \<^verbatim>\<open>additionalItems\<close>\<close>
  | TObject "jsval option" "(string \<times> schema) list" "string list" "(bool + schema) option"
      \<comment> \<open>\<^verbatim>\<open>properties\<close>, \<^verbatim>\<open>required\<close>, \<^verbatim>\<open>additionalProperties\<close>\<close>
  | TRecord "jsval option" "(string \<times> schema) list" "(bool + schema) option"
      \<comment> \<open>\<^verbatim>\<open>patternProperties\<close>, \<^verbatim>\<open>additionalProperties\<close>\<close>
  | TUnion "jsval option" "schema list"
      \<comment> \<open>\<^verbatim>\<open>anyOf\<close>\<close>
  | TIntersect "jsval option" "schema list"
      \<comment> \<open>\<^verbatim>\<open>allOf\<close>\<close>
  | TOptional "jsval option" schema
      \<comment> \<open>\<^verbatim>\<open>item\<close>\<close>
  | TRef "jsval option" string
      \<comment> \<open>\<^verbatim>\<open>$ref\<close>\<close>

fun declaredDefault :: "schema \<Rightarrow> jsval option" where
  "declaredDefault (TString d c) = d"
| "declaredDefault (TNumber d c) = d"
| "declaredDefault (TInteger d c) = d"
| "declaredDefault (TBoolean d) = d"
| "declaredDefault (TNull d) = d"
| "declaredDefault (TAny d) = d"
| "declaredDefault (TUnknown d) = d"
| "declaredDefault (TLiteral d c) = d"
| "declaredDefault (TEnum d vs) = d"
| "declaredDefault (TArray d items) = d"
| "declaredDefault (TTuple d items addl) = d"
| "declaredDefault (TObject d props req addl) = d"
| "declaredDefault (TRecord d pats addl) = d"
| "declaredDefault (TUnion d alts) = d"
| "declaredDefault (TIntersect d subs) = d"
| "declaredDefault (TOptional d inner) = d"
| "declaredDefault (TRef d r) = d"

definition sdefault :: "schema \<Rightarrow> jsval" where
  \<comment> \<open>\<^verbatim>\<open>schema.default\<close>, \<^verbatim>\<open>undefined\<close> when the node carries none\<close>
  "sdefault s = (case declaredDefault s of None \<Rightarrow> VUndefined | Some v \<Rightarrow> v)"

fun isNullKind :: "schema \<Rightarrow> bool" where
  \<comment> \<open>\<^verbatim>\<open>s[Kind] === "Null" || s.type === "null"\<close>\<close>
  "isNullKind (TNull d) = True"
| "isNullKind s = False"

fun isOptionalKind :: "schema \<Rightarrow> bool" where
  \<comment> \<open>\<^verbatim>\<open>s[Kind] === "Optional"\<close>\<close>
  "isOptionalKind (TOptional d inner) = True"
| "isOptionalKind s = False"

text \<open>
  An options object is a finite map from option names to values: a key may be absent,
  or present with any value, \<^verbatim>\<open>undefined\<close> included. The spread
  \<^verbatim>\<open>{ ...a, ...b }\<close> is \<open>a ++ b\<close>.
\<close>

type_synonym options = "string \<Rightarrow> jsval option"

definition opt :: "options \<Rightarrow> string \<Rightarrow> jsval" where
  \<comment> \<open>\<^verbatim>\<open>options.key\<close>\<close>
  "opt opts k = (case opts k of None \<Rightarrow> VUndefined | Some v \<Rightarrow> v)"

definition defaultOptions :: options where
  \<comment> \<open>the defaults of \<^verbatim>\<open>type-coercer.ts\<close>\<close>
  "defaultOptions = map_of
     [(''allowPartials'', VBool False),
      (''useDefaults'', VBool True),
      (''strict'', VBool False),
      (''maxDepth'', VNum 50),
      (''trackCoercions'', VBool False)]"

fun toNum :: "host \<Rightarrow> jsval \<Rightarrow> number" where
  \<comment> \<open>the number a value is compared as\<close>
  "toNum rt VUndefined = NaN"
| "toNum rt VNull = Fin 0"
| "toNum rt (VBool b) = Fin (if b then 1 else 0)"
| "toNum rt (VNumber x) = x"
| "toNum rt v = toNumber rt v"

definition depthExceeded :: "host \<Rightarrow> nat \<Rightarrow> options \<Rightarrow> bool" where
  \<comment> \<open>\<^verbatim>\<open>depth > options.maxDepth\<close>\<close>
  "depthExceeded rt depth opts =
     numLess (toNum rt (opt opts ''maxDepth'')) (Fin (of_nat depth))"

section \<open>The coercer\<close>

text \<open>
  The source threads two callbacks through the walk, \<^verbatim>\<open>addError(msg, exp, rec)\<close> and
  \<^verbatim>\<open>addCoercion(msg)\<close>, which only append to a buffer owned by whoever supplied them.
  In the model every function returns, with its value, the calls it made to the two
  callbacks, each list in the order of the calls; the owner of the buffers turns them
  into entries. Counts and array indices are printed by \<open>showNat\<close>.
\<close>

type_synonym errorCall = "string \<times> string option \<times> string option"

type_synonym outcome = "jsval \<times> errorCall list \<times> string list"

definition ovalue :: "outcome \<Rightarrow> jsval" where
  "ovalue r = fst r"

definition oerrors :: "outcome \<Rightarrow> errorCall list" where
  "oerrors r = fst (snd r)"

definition onotes :: "outcome \<Rightarrow> string list" where
  "onotes r = snd (snd r)"

subsection \<open>Scalars\<close>

definition coerceNull :: "host \<Rightarrow> jsval \<Rightarrow> options \<Rightarrow> string \<Rightarrow> outcome" where
  "coerceNull rt v opts path =
     (if v = VNull \<or> v = VUndefined then (VNull, [], [])
      else if truthy (opt opts ''allowPartials'') then (VNull, [], [])
      else (VNull, [], [''coerced '' @ typeof v @ '' to null at '' @ path]))"

definition coerceLiteral :: "host \<Rightarrow> jsval \<Rightarrow> jsval \<Rightarrow> outcome" where
  \<comment> \<open>the third argument is the schema's \<^verbatim>\<open>const\<close>\<close>
  "coerceLiteral rt v expected =
     (if strictEq v expected then (v, [], [])
      else if jsString rt v = jsString rt expected then (expected, [], [])
      else (v, [(''Expected literal '' @ jsonStringify rt expected,
                 Some (jsonStringify rt expected), Some (jsString rt v))], []))"

definition coerceEnum :: "host \<Rightarrow> jsval \<Rightarrow> jsval list \<Rightarrow> string \<Rightarrow> outcome" where
  \<comment> \<open>the third argument is the schema's \<^verbatim>\<open>enum\<close>\<close>
  "coerceEnum rt v allowed path =
     (let failure = (v, [(''Expected one of '' @ joinWith '', '' (map (jsonStringify rt) allowed),
                          Some ''enum'', Some (jsString rt v))], [])
      in if arrayIncludes allowed v then (v, [], [])
         else (case v of
                 VStr s \<Rightarrow>
                   (case find (\<lambda>a. case a of VStr t \<Rightarrow> toLowerCase t = toLowerCase s | _ \<Rightarrow> False) allowed of
                      Some m \<Rightarrow>
                        (m, [], [''case-insensitive enum match at '' @ path @ '': '' @ s @ '' -> '' @ jsString rt m])
                    | None \<Rightarrow> failure)
               | _ \<Rightarrow> failure))"

definition coerceString :: "host \<Rightarrow> jsval \<Rightarrow> strConstraints \<Rightarrow> string \<Rightarrow> outcome" where
  \<comment> \<open>the third argument holds the constraints of the \<^verbatim>\<open>TString\<close> schema\<close>
  "coerceString rt v c path =
     (case v of
        VStr s \<Rightarrow>
          (VStr s,
           (case minLength c of
              Some m \<Rightarrow>
                if of_nat (length s) < m
                then [(''String too short (min '' @ numToString rt (Fin m) @ '')'',
                       Some (''minLength '' @ numToString rt (Fin m)), Some (showNat (length s)))]
                else []
            | None \<Rightarrow> []) @
           (case maxLength c of
              Some m \<Rightarrow>
                if m < of_nat (length s)
                then [(''String too long (max '' @ numToString rt (Fin m) @ '')'',
                       Some (''maxLength '' @ numToString rt (Fin m)), Some (showNat (length s)))]
                else []
            | None \<Rightarrow> []) @
           (case pattern c of
              Some p \<Rightarrow>
                if p \<noteq> [] \<and> \<not> regExpTest rt p s
                then [(''String does not match pattern /'' @ p @ ''/'', Some (''pattern '' @ p), Some s)]
                else []
            | None \<Rightarrow> []),
           [])
      | _ \<Rightarrow>
          (VStr (case v of
                   VNumber x \<Rightarrow> jsString rt v
                 | VBool b \<Rightarrow> jsString rt v
                 | VNull \<Rightarrow> ''null''
                 | VArr xs \<Rightarrow> jsonStringify rt v
                 | VObj kvs \<Rightarrow> jsonStringify rt v
                 | _ \<Rightarrow> jsString rt v),
           [],
           [''coerced '' @ typeof v @ '' to string at '' @ path]))"

definition validateNumber :: "host \<Rightarrow> number \<Rightarrow> numConstraints \<Rightarrow> errorCall list" where
  \<comment> \<open>the calls to \<^verbatim>\<open>addError\<close>; the source returns \<^verbatim>\<open>num\<close> itself\<close>
  "validateNumber rt num c =
     (case minimum c of
        Some m \<Rightarrow>
          if numLess num (Fin m)
          then [(''Number below minimum ('' @ numToString rt (Fin m) @ '')'',
                 Some (''>= '' @ numToString rt (Fin m)), Some (numToString rt num))]
          else []
      | None \<Rightarrow> []) @
     (case maximum c of
        Some m \<Rightarrow>
          if numLess (Fin m) num
          then [(''Number above maximum ('' @ numToString rt (Fin m) @ '')'',
                 Some (''<= '' @ numToString rt (Fin m)), Some (numToString rt num))]
          else []
      | None \<Rightarrow> []) @
     (case exclusiveMinimum c of
        Some m \<Rightarrow>
          if numLessEq num (Fin m)
          then [(''Number not above exclusive minimum ('' @ numToString rt (Fin m) @ '')'',
                 Some (''> '' @ numToString rt (Fin m)), Some (numToString rt num))]
          else []
      | None \<Rightarrow> []) @
     (case exclusiveMaximum c of
        Some m \<Rightarrow>
          if numLessEq (Fin m) num
          then [(''Number not below exclusive maximum ('' @ numToString rt (Fin m) @ '')'',
                 Some (''< '' @ numToString rt (Fin m)), Some (numToString rt num))]
          else []
      | None \<Rightarrow> []) @
     (case multipleOf c of
        Some m \<Rightarrow>
          if remainderNonZero num m
          then [(''Number not multiple of '' @ numToString rt (Fin m),
                 Some (''multiple of '' @ numToString rt (Fin m)), Some (numToString rt num))]
          else []
      | None \<Rightarrow> [])"

definition coerceNumber :: "host \<Rightarrow> jsval \<Rightarrow> bool \<Rightarrow> numConstraints \<Rightarrow> string \<Rightarrow> outcome" where
  \<comment> \<open>the third argument is \<^verbatim>\<open>isInt\<close>, which the source reads off the kind of the schema,
      the fourth holds the constraints of the \<^verbatim>\<open>TNumber\<close> or \<^verbatim>\<open>TInteger\<close> schema\<close>
  "coerceNumber rt v isInt c path =
     (let failure = (v, [(''Cannot coerce to '' @ (if isInt then ''integer'' else ''number''),
                          Some (if isInt then ''integer'' else ''number''), Some (jsString rt v))], [])
      in case v of
        VNumber num \<Rightarrow>
          if isInt \<and> \<not> isInteger num
          then (VNumber (trunc num), validateNumber rt (trunc num) c, [''truncated float to integer at '' @ path])
          else (VNumber num, validateNumber rt num c, [])
      | VStr s \<Rightarrow>
          (let parsed = (if isInt then parseInt10 s else parseFloat rt s)
           in if parsed \<noteq> NaN
              then (VNumber parsed, validateNumber rt parsed c, [''parsed string to number at '' @ path])
              else failure)
      | VBool b \<Rightarrow>
          (VNum (if b then 1 else 0), validateNumber rt (Fin (if b then 1 else 0)) c,
           [''converted boolean to number at '' @ path])
      | _ \<Rightarrow> failure)"

definition coerceBoolean :: "host \<Rightarrow> jsval \<Rightarrow> outcome" where
  "coerceBoolean rt v =
     (let failure = (v, [(''Cannot coerce to boolean'', Some ''boolean'', Some (jsString rt v))], [])
      in case v of
        VBool b \<Rightarrow> (v, [], [])
      | VStr s \<Rightarrow>
          (let lower = toLowerCase s
           in if lower = ''true'' \<or> lower = ''1'' \<or> lower = ''yes'' then (VBool True, [], [])
              else if lower = ''false'' \<or> lower = ''0'' \<or> lower = ''no'' \<or> lower = [] then (VBool False, [], [])
              else failure)
      | VNumber x \<Rightarrow> (VBool (x \<noteq> Fin 0), [], [])
      | _ \<Rightarrow> failure)"

subsection \<open>Union admissibility and completeness\<close>

definition isNullable :: "schema \<Rightarrow> bool" where
  "isNullable s = (case s of TUnion d anyOf \<Rightarrow> list_ex isNullKind anyOf | _ \<Rightarrow> False)"

definition isOptionalProperty :: "schema \<Rightarrow> bool" where
  "isOptionalProperty s =
     (if isOptionalKind s then True
      else case s of TUnion d anyOf \<Rightarrow> list_ex isNullKind anyOf | _ \<Rightarrow> False)"

fun canHandleValue :: "jsval \<Rightarrow> schema \<Rightarrow> bool" where
  "canHandleValue v (TAny d) = True"
| "canHandleValue v (TUnknown d) = True"
| "canHandleValue v (TString d c) =
     (if v = VNull \<or> v = VUndefined then False else typeof v = ''string'')"
| "canHandleValue v (TNumber d c) =
     (if v = VNull \<or> v = VUndefined then False else typeof v = ''number'')"
| "canHandleValue v (TInteger d c) =
     (if v = VNull \<or> v = VUndefined then False
      else case v of VNumber x \<Rightarrow> isInteger x | _ \<Rightarrow> False)"
| "canHandleValue v (TBoolean d) =
     (if v = VNull \<or> v = VUndefined then False else typeof v = ''boolean'')"
| "canHandleValue v (TObject d props required addl) =
     (if v = VNull \<or> v = VUndefined then False
      else typeof v = ''object'' \<and> v \<noteq> VNull \<and> \<not> isArray v)"
| "canHandleValue v (TArray d items) =
     (if v = VNull \<or> v = VUndefined then False else isArray v)"
| "canHandleValue v (TLiteral d expected) =
     (if v = VNull \<or> v = VUndefined then False else strictEq v expected)"
| "canHandleValue v (TEnum d allowed) =
     (if v = VNull \<or> v = VUndefined then False else arrayIncludes allowed v)"
| "canHandleValue v (TUnion d anyOf) =
     (if v = VNull \<or> v = VUndefined then list_ex isNullKind anyOf
      else list_ex (\<lambda>s. canHandleValue v s) anyOf)"
| "canHandleValue v (TNull d) = True"
| "canHandleValue v (TOptional d inner) = True"
| "canHandleValue v (TTuple d items addl) = (v \<noteq> VNull \<and> v \<noteq> VUndefined)"
| "canHandleValue v (TRecord d pats addl) = (v \<noteq> VNull \<and> v \<noteq> VUndefined)"
| "canHandleValue v (TIntersect d allOf) = (v \<noteq> VNull \<and> v \<noteq> VUndefined)"
| "canHandleValue v (TRef d r) = (v \<noteq> VNull \<and> v \<noteq> VUndefined)"

fun hasKey :: "host \<Rightarrow> jsval \<Rightarrow> string \<Rightarrow> bool" where
  \<comment> \<open>\<^verbatim>\<open>key in value\<close>, for a value whose \<^verbatim>\<open>typeof\<close> is \<^verbatim>\<open>"object"\<close>: a property of
      its own (for an array its indices and \<^verbatim>\<open>length\<close>), or one that it inherits from
      its prototypes (\<^verbatim>\<open>Object.prototype\<close>, and before it \<^verbatim>\<open>Array.prototype\<close> for an
      array)\<close>
  "hasKey rt (VObj kvs) k = inPlainObject rt kvs k"
| "hasKey rt (VArr xs) k =
     (k = ''length'' \<or> k \<in> set (map showNat [0..<length xs]) \<or> arrayPrototype rt k \<or>
      objectPrototype rt k \<noteq> None)"
| "hasKey rt v k = False"

definition isComplete :: "host \<Rightarrow> jsval \<Rightarrow> schema \<Rightarrow> bool" where
  "isComplete rt v s =
     (case s of
        TObject d props required addl \<Rightarrow>
          if typeof v \<noteq> ''object'' \<or> v = VNull then False
          else if list_ex (\<lambda>key. key \<in> set required \<and> \<not> hasKey rt v key) (map fst props) then False
          else v \<noteq> VUndefined \<and> v \<noteq> VNull
      | TArray d items \<Rightarrow> (case v of VArr xs \<Rightarrow> 0 < length xs | _ \<Rightarrow> False)
      | _ \<Rightarrow> v \<noteq> VUndefined \<and> v \<noteq> VNull)"

subsection \<open>Containers\<close>

text \<open>
  Each container coercer of the source calls back into \<^verbatim>\<open>coerceInternal\<close> with the
  options and the callbacks it was given. In the model this call is the first argument
  \<open>rec\<close> of the coercer: \<open>rec x s p\<close> is
  \<^verbatim>\<open>coerceInternal(x, s, options, p, d, addCoercion, addError)\<close>, at the depth \<open>d\<close>
  the source passes (\<^verbatim>\<open>depth + 1\<close> in \<^verbatim>\<open>coerceObject\<close>, \<^verbatim>\<open>coerceArray\<close>,
  \<^verbatim>\<open>coerceRecord\<close> and \<^verbatim>\<open>coerceTuple\<close>, \<^verbatim>\<open>depth\<close> in \<^verbatim>\<open>coerceUnion\<close> and
  \<^verbatim>\<open>coerceOptional\<close>). \<open>coerceInternal\<close> below ties the knot.
\<close>

type_synonym recCall = "jsval \<Rightarrow> schema \<Rightarrow> string \<Rightarrow> outcome"

text \<open>One round of a loop that fills \<^verbatim>\<open>result\<close>: the assignments it makes, and its calls.\<close>

type_synonym round = "(string \<times> jsval) list \<times> errorCall list \<times> string list"

definition fieldPathOf :: "string \<Rightarrow> string \<Rightarrow> string" where
  \<comment> \<open>\<^verbatim>\<open>path ? `${path}.${key}` : key\<close>\<close>
  "fieldPathOf path key = (if path \<noteq> [] then path @ ''.'' @ key else key)"

definition declaredField ::
  "recCall \<Rightarrow> host \<Rightarrow> options \<Rightarrow> (string \<times> jsval) list \<Rightarrow> string list \<Rightarrow> string \<Rightarrow> string \<times> schema
     \<Rightarrow> round" where
  \<comment> \<open>the body of the loop over \<^verbatim>\<open>Object.entries(properties)\<close>\<close>
  "declaredField rec rt opts valueObj required path prop =
     (let key = fst prop;
          propSchema = snd prop;
          fieldPath = fieldPathOf path key;
          fieldValue = lookupKey rt valueObj key;
          isRequired = (key \<in> set required)
      in if fieldValue = VUndefined
         then (if truthy (opt opts ''useDefaults'') \<and> sdefault propSchema \<noteq> VUndefined
               then ([(key, sdefault propSchema)], [], [''used default for '' @ fieldPath])
               else if \<not> isRequired \<or> isOptionalProperty propSchema then ([], [], [])
               else if truthy (opt opts ''allowPartials'') then ([(key, VUndefined)], [], [])
               else ([(key, VUndefined)],
                     [(''Missing required field: '' @ key, None, Some ''undefined'')], []))
         else (let r = rec fieldValue propSchema fieldPath
               in ([(key, ovalue r)], oerrors r, onotes r)))"

definition additionalField ::
  "recCall \<Rightarrow> host \<Rightarrow> (string \<times> schema) list \<Rightarrow> (bool + schema) option \<Rightarrow> string \<Rightarrow> string \<times> jsval
     \<Rightarrow> round" where
  \<comment> \<open>the body of the loop over \<^verbatim>\<open>Object.entries(valueObj)\<close>; \<^verbatim>\<open>properties\<close> is a
      plain object, so that \<^verbatim>\<open>key in properties\<close> also holds for the keys it inherits\<close>
  "additionalField rec rt props additionalProps path entry =
     (let key = fst entry;
          fieldValue = snd entry
      in if inPlainObject rt props key then ([], [], [])
         else (case additionalProps of
                 None \<Rightarrow> ([(key, fieldValue)], [], [])
               | Some (Inl allowed) \<Rightarrow> (if allowed then ([(key, fieldValue)], [], []) else ([], [], []))
               | Some (Inr s) \<Rightarrow>
                   (let r = rec fieldValue s (fieldPathOf path key)
                    in ([(key, ovalue r)], oerrors r, onotes r))))"

definition arrayToObject :: "jsval list \<Rightarrow> (string \<times> jsval) list" where
  \<comment> \<open>\<^verbatim>\<open>value.forEach((item, index) => { obj[String(index)] = item; })\<close>\<close>
  "arrayToObject xs = map (\<lambda>(index, item). (showNat index, item)) (enumerate 0 xs)"

fun objectPhase :: "jsval \<Rightarrow> nat" where
  "objectPhase (VStr s) = 2"
| "objectPhase (VArr xs) = 1"
| "objectPhase v = 0"

function coerceObject ::
  "recCall \<Rightarrow> host \<Rightarrow> jsval \<Rightarrow> (string \<times> schema) list \<Rightarrow> string list \<Rightarrow> (bool + schema) option
     \<Rightarrow> options \<Rightarrow> string \<Rightarrow> outcome" where
  \<comment> \<open>the fourth to sixth arguments are \<^verbatim>\<open>properties\<close>, \<^verbatim>\<open>required\<close> and
      \<^verbatim>\<open>additionalProperties\<close> of the \<^verbatim>\<open>TObject\<close> schema. A string that
      \<^verbatim>\<open>JSON.parse\<close> rejects, or parses to something that is no object, falls through
      to the error, as the \<^verbatim>\<open>catch\<close> of the source does.\<close>
  "coerceObject rec rt v props required additionalProps opts path =
     (case v of
        VArr xs \<Rightarrow>
          (let r = coerceObject rec rt (VObj (arrayToObject xs)) props required additionalProps opts path
           in (ovalue r, oerrors r, (''converted array to object with index keys at '' @ path) # onotes r))
      | VStr s \<Rightarrow>
          (case jsonParse rt s of
             Some parsed \<Rightarrow>
               if typeof parsed = ''object'' \<and> parsed \<noteq> VNull
               then (let r = coerceObject rec rt parsed props required additionalProps opts path
                     in (ovalue r, oerrors r, (''parsed string to object at '' @ path) # onotes r))
               else (v, [(''Expected object, got '' @ typeof v, Some ''object'', Some (typeof v))], [])
           | None \<Rightarrow> (v, [(''Expected object, got '' @ typeof v, Some ''object'', Some (typeof v))], []))
      | VObj valueObj \<Rightarrow>
          (let declared = map (declaredField rec rt opts valueObj required path) props;
               additional = map (additionalField rec rt props additionalProps path) valueObj
           in (VObj (assignAll [] (concat (map fst declared) @ concat (map fst additional))),
               concat (map (\<lambda>r. fst (snd r)) declared) @ concat (map (\<lambda>r. fst (snd r)) additional),
               concat (map (\<lambda>r. snd (snd r)) declared) @ concat (map (\<lambda>r. snd (snd r)) additional)))
      | _ \<Rightarrow> (v, [(''Expected object, got '' @ typeof v, Some ''object'', Some (typeof v))], []))"
  by pat_completeness auto
termination
proof (relation "measure (\<lambda>(rec, rt, v, rest). objectPhase v)")
  show "wf (measure (\<lambda>(rec, rt, v, rest). objectPhase v))"
    by simp
next
  fix rec :: recCall and rt :: host and v :: jsval and props :: "(string \<times> schema) list"
    and required :: "string list" and additionalProps :: "(bool + schema) option"
    and opts :: options and path :: string and xs :: "jsval list"
  assume "v = VArr xs"
  then show "((rec, rt, VObj (arrayToObject xs), props, required, additionalProps, opts, path),
              (rec, rt, v, props, required, additionalProps, opts, path))
             \<in> measure (\<lambda>(rec, rt, v, rest). objectPhase v)"
    by simp
next
  fix rec :: recCall and rt :: host and v :: jsval and props :: "(string \<times> schema) list"
    and required :: "string list" and additionalProps :: "(bool + schema) option"
    and opts :: options and path :: string and s :: string and parsed :: jsval
  assume "v = VStr s" and "typeof parsed = ''object'' \<and> parsed \<noteq> VNull"
  then show "((rec, rt, parsed, props, required, additionalProps, opts, path),
              (rec, rt, v, props, required, additionalProps, opts, path))
             \<in> measure (\<lambda>(rec, rt, v, rest). objectPhase v)"
    by (cases parsed) simp_all
qed

declare coerceObject.simps [simp del]

definition coerceArray :: "recCall \<Rightarrow> jsval \<Rightarrow> schema \<Rightarrow> string \<Rightarrow> outcome" where
  \<comment> \<open>the third argument is \<^verbatim>\<open>items\<close> of the \<^verbatim>\<open>TArray\<close> schema\<close>
  "coerceArray rec v items path =
     (case v of
        VArr xs \<Rightarrow>
          (let rs = map (\<lambda>(i, x). rec x items (path @ ''['' @ showNat i @ '']'')) (enumerate 0 xs)
           in (VArr (map ovalue rs), concat (map oerrors rs), concat (map onotes rs)))
      | _ \<Rightarrow>
          (let r = rec v items (path @ ''[0]'')
           in (VArr [ovalue r], oerrors r, (''wrapped single value in array at '' @ path) # onotes r)))"

record CoercionError =
  errPath :: string
  errMessage :: string
  errExpected :: "string option"
  errReceived :: "string option"

record bestResult =
  bestValue :: jsval
  bestErrors :: nat
  bestCoercions :: nat

definition variantErrors :: "string \<Rightarrow> outcome \<Rightarrow> CoercionError list" where
  \<comment> \<open>the private error buffer of one variant, filled by the callback
      \<^verbatim>\<open>(msg, exp, rec) => variantErrors.push({ path, message: msg, expected: exp, received: rec })\<close>\<close>
  "variantErrors path r =
     map (\<lambda>(msg, expct, rcv). \<lparr>errPath = path, errMessage = msg, errExpected = expct, errReceived = rcv\<rparr>)
       (oerrors r)"

fun unionLoop :: "string \<Rightarrow> outcome option list \<Rightarrow> bestResult option \<Rightarrow> outcome + bestResult option" where
  \<comment> \<open>the first loop of \<^verbatim>\<open>coerceUnion\<close> over the variants; an entry is \<open>None\<close> for a
      variant that \<^verbatim>\<open>canHandleValue\<close> rejects, and else the outcome of coercing against
      it. \<open>Inl\<close> is the early return of a perfect match, \<open>Inr\<close> the \<^verbatim>\<open>bestResult\<close>
      when the loop runs to its end.\<close>
  "unionLoop path [] best = Inr best"
| "unionLoop path (None # rest) best = unionLoop path rest best"
| "unionLoop path (Some r # rest) best =
     (if length (variantErrors path r) = 0 then Inl (ovalue r, [], onotes r)
      else unionLoop path rest
             (case best of
                None \<Rightarrow>
                  Some \<lparr>bestValue = ovalue r, bestErrors = length (variantErrors path r),
                        bestCoercions = length (onotes r)\<rparr>
              | Some b \<Rightarrow>
                  if length (variantErrors path r) < bestErrors b
                  then Some \<lparr>bestValue = ovalue r, bestErrors = length (variantErrors path r),
                             bestCoercions = length (onotes r)\<rparr>
                  else best))"

definition coerceUnion :: "recCall \<Rightarrow> jsval \<Rightarrow> schema list \<Rightarrow> string \<Rightarrow> outcome" where
  \<comment> \<open>the third argument is \<^verbatim>\<open>anyOf\<close> of the \<^verbatim>\<open>TUnion\<close> schema. Nothing in the model
      throws, so the last loop of the source returns at its first variant.\<close>
  "coerceUnion rec v variants path =
     (case unionLoop path
             (map (\<lambda>variant. if canHandleValue v variant then Some (rec v variant path) else None) variants)
             None of
        Inl perfect \<Rightarrow> perfect
      | Inr (Some best) \<Rightarrow>
          (bestValue best, [],
           [''selected union variant with '' @ showNat (bestErrors best) @ '' errors at '' @ path])
      | Inr None \<Rightarrow>
          (case variants of
             [] \<Rightarrow> (v, [(''No matching variant in union'', None, None)], [])
           | variant # rest \<Rightarrow>
               (let r = rec v variant path
                in (ovalue r, oerrors r, onotes r @ [''forced union variant at '' @ path]))))"

definition mergedProperties :: "schema list \<Rightarrow> (string \<times> schema) list" where
  \<comment> \<open>\<^verbatim>\<open>Object.assign(merged, props)\<close> for every sub-schema of kind \<^verbatim>\<open>Object\<close>\<close>
  "mergedProperties allOf =
     fold (\<lambda>subSchema merged. case subSchema of TObject d props required addl \<Rightarrow> assignAll merged props
                                | _ \<Rightarrow> merged)
       allOf []"

definition requiredFlags :: "schema list \<Rightarrow> (string \<times> bool) list" where
  \<comment> \<open>for every merged property, whether the sub-schema it was last taken from
      lists it as required\<close>
  "requiredFlags allOf =
     fold (\<lambda>subSchema flags. case subSchema of
                                TObject d props required addl \<Rightarrow>
                                  assignAll flags (map (\<lambda>prop. (fst prop, fst prop \<in> set required)) props)
                              | _ \<Rightarrow> flags)
       allOf []"

definition typeObjectRequired :: "schema list \<Rightarrow> string list" where
  \<comment> \<open>\<^verbatim>\<open>required\<close> of \<^verbatim>\<open>Type.Object(merged)\<close>. TypeBox lists as required the
      properties whose schema does not carry its \<^verbatim>\<open>Optional\<close> modifier. The schemas of
      the model do not carry the modifier: the objects among \<^verbatim>\<open>allOf\<close> are taken to be
      built by \<^verbatim>\<open>Type.Object\<close> too, so that a property of theirs carries the modifier
      exactly when they do not list it as required.\<close>
  "typeObjectRequired allOf = map fst (filter snd (requiredFlags allOf))"

definition coerceIntersect :: "recCall \<Rightarrow> host \<Rightarrow> jsval \<Rightarrow> schema list \<Rightarrow> options \<Rightarrow> string \<Rightarrow> outcome" where
  \<comment> \<open>the fourth argument is \<^verbatim>\<open>allOf\<close> of the \<^verbatim>\<open>TIntersect\<close> schema\<close>
  "coerceIntersect rec rt v allOf opts path =
     (if allOf = [] then (v, [], [])
      else coerceObject rec rt v (mergedProperties allOf) (typeObjectRequired allOf) None opts path)"

definition coerceOptional :: "recCall \<Rightarrow> jsval \<Rightarrow> schema \<Rightarrow> string \<Rightarrow> outcome" where
  \<comment> \<open>the third argument is \<^verbatim>\<open>item\<close> of the \<^verbatim>\<open>TOptional\<close> schema\<close>
  "coerceOptional rec v inner path =
     (if v = VNull \<or> v = VUndefined then (VUndefined, [], []) else rec v inner path)"

definition recordValueSchema :: "(string \<times> schema) list \<Rightarrow> (bool + schema) option \<Rightarrow> schema" where
  "recordValueSchema patternProps additional =
     (case patternProps of
        prop # rest \<Rightarrow> snd prop
      | [] \<Rightarrow> (case additional of Some (Inr s) \<Rightarrow> s | _ \<Rightarrow> TAny None))"

definition coerceRecord ::
  "recCall \<Rightarrow> jsval \<Rightarrow> (string \<times> schema) list \<Rightarrow> (bool + schema) option \<Rightarrow> string \<Rightarrow> outcome" where
  \<comment> \<open>the third and fourth arguments are \<^verbatim>\<open>patternProperties\<close> and
      \<^verbatim>\<open>additionalProperties\<close> of the \<^verbatim>\<open>TRecord\<close> schema\<close>
  "coerceRecord rec v patternProps additional path =
     (case v of
        VObj kvs \<Rightarrow>
          (let valueSchema = recordValueSchema patternProps additional;
               rs = map (\<lambda>(key, val). (key, rec val valueSchema (path @ ''['' @ key @ '']''))) kvs
           in (VObj (assignAll [] (map (\<lambda>(key, r). (key, ovalue r)) rs)),
               concat (map (\<lambda>(key, r). oerrors r) rs),
               concat (map (\<lambda>(key, r). onotes r) rs)))
      | _ \<Rightarrow> (v, [(''Expected record object, got '' @ typeof v, Some ''record'', Some (typeof v))], []))"

definition tupleElement :: "recCall \<Rightarrow> jsval list \<Rightarrow> string \<Rightarrow> nat \<times> schema \<Rightarrow> outcome" where
  \<comment> \<open>the body of the loop over \<^verbatim>\<open>items\<close>\<close>
  "tupleElement rec xs path item =
     (let i = fst item;
          itemSchema = snd item
      in if i < length xs then rec (xs ! i) itemSchema (path @ ''['' @ showNat i @ '']'')
         else if sdefault itemSchema \<noteq> VUndefined then (sdefault itemSchema, [], [])
         else (VUndefined, [(''Missing tuple element at index '' @ showNat i, None, None)], []))"

definition coerceTuple ::
  "recCall \<Rightarrow> jsval \<Rightarrow> schema list \<Rightarrow> (bool + schema) option \<Rightarrow> string \<Rightarrow> outcome" where
  \<comment> \<open>the third and fourth arguments are \<^verbatim>\<open>items\<close> and \<^verbatim>\<open>additionalItems\<close> of the
      \<^verbatim>\<open>TTuple\<close> schema\<close>
  "coerceTuple rec v items additionalItems path =
     (case v of
        VArr xs \<Rightarrow>
          (let rs = map (tupleElement rec xs path) (enumerate 0 items);
               extra = (if additionalItems \<noteq> Some (Inl False) then drop (length items) xs else [])
           in (VArr (map ovalue rs @ extra), concat (map oerrors rs), concat (map onotes rs)))
      | _ \<Rightarrow> (v, [(''Expected tuple array, got '' @ typeof v, Some ''tuple'', Some (typeof v))], []))"

subsection \<open>The recursion\<close>

text \<open>
  The container coercers only apply \<open>rec\<close> to schemas below the node they coerce
  against. These facts let the definition of \<open>coerceInternal\<close> find its recursive
  calls.
\<close>

lemma declaredField_cong:
  assumes "opt opts ''useDefaults'' = opt opts' ''useDefaults''"
    and "opt opts ''allowPartials'' = opt opts' ''allowPartials''"
    and "\<And>x p. rec x (snd prop) p = rec' x (snd prop) p"
  shows "declaredField rec rt opts valueObj required path prop =
         declaredField rec' rt opts' valueObj required path prop"
  using assms by (simp add: declaredField_def Let_def)

lemma additionalField_cong:
  assumes "\<And>x s p. additionalProps = Some (Inr s) \<Longrightarrow> rec x s p = rec' x s p"
  shows "additionalField rec rt props additionalProps path entry =
         additionalField rec' rt props additionalProps path entry"
  using assms by (auto simp: additionalField_def Let_def split: option.splits sum.splits)

text \<open>
  \<open>coerceObject\<close> reads two options, \<^verbatim>\<open>useDefaults\<close> and \<^verbatim>\<open>allowPartials\<close>, and applies
  \<open>rec\<close> to the schemas of the declared properties and to the schema of the additional
  ones.
\<close>

lemma coerceObject_agree:
  assumes "opt opts ''useDefaults'' = opt opts' ''useDefaults''"
    and "opt opts ''allowPartials'' = opt opts' ''allowPartials''"
    and "\<And>x s p. s \<in> set (map snd props) \<or> additionalProps = Some (Inr s) \<Longrightarrow> rec x s p = rec' x s p"
  shows "coerceObject rec rt v props required additionalProps opts path =
         coerceObject rec' rt v props required additionalProps opts' path"
  using assms
proof (induction rec rt v props required additionalProps opts path rule: coerceObject.induct)
  case (1 rec rt v props required additionalProps opts path)
  have agree: "\<And>x s p. s \<in> set (map snd props) \<or> additionalProps = Some (Inr s) \<Longrightarrow> rec x s p = rec' x s p"
    using "1.prems"(3) by blast
  note same = "1.prems"(1,2)
  show ?case
  proof (cases v)
    case (VArr xs)
    have "coerceObject rec rt (VObj (arrayToObject xs)) props required additionalProps opts path =
          coerceObject rec' rt (VObj (arrayToObject xs)) props required additionalProps opts' path"
      using "1.IH"(2) [OF VArr same] agree by blast
    then show ?thesis
      using VArr
      by (simp add: coerceObject.simps [of rec rt "VArr xs"] coerceObject.simps [of rec' rt "VArr xs"])
  next
    case (VStr s)
    show ?thesis
    proof (cases "jsonParse rt s")
      case None
      then show ?thesis
        using VStr
        by (simp add: coerceObject.simps [of rec rt "VStr s"] coerceObject.simps [of rec' rt "VStr s"])
    next
      case (Some parsed)
      show ?thesis
      proof (cases "typeof parsed = ''object'' \<and> parsed \<noteq> VNull")
        case True
        have "coerceObject rec rt parsed props required additionalProps opts path =
              coerceObject rec' rt parsed props required additionalProps opts' path"
          using "1.IH"(1) [OF VStr Some True same] agree by blast
        then show ?thesis
          using VStr Some True
          by (simp add: coerceObject.simps [of rec rt "VStr s"] coerceObject.simps [of rec' rt "VStr s"])
      next
        case False
        then show ?thesis
          using VStr Some
          by (auto simp: coerceObject.simps [of rec rt "VStr s"] coerceObject.simps [of rec' rt "VStr s"])
      qed
    qed
  next
    case (VObj valueObj)
    have d: "map (declaredField rec rt opts valueObj required path) props =
             map (declaredField rec' rt opts' valueObj required path) props"
      by (rule map_cong [OF refl], rule declaredField_cong [OF same]) (use agree in auto)
    have a: "map (additionalField rec rt props additionalProps path) valueObj =
             map (additionalField rec' rt props additionalProps path) valueObj"
      by (rule map_cong [OF refl], rule additionalField_cong) (use agree in auto)
    show ?thesis
      by (simp only: VObj coerceObject.simps [of rec rt "VObj valueObj"]
            coerceObject.simps [of rec' rt "VObj valueObj"] jsval.case Let_def d a)
  qed (simp_all add: coerceObject.simps [of rec rt] coerceObject.simps [of rec' rt])
qed

lemma coerceObject_cong [fundef_cong]:
  assumes "rt = rt'" and "v = v'" and "props = props'" and "required = required'"
    and "additionalProps = additionalProps'" and "opts = opts'" and "path = path'"
    and "\<And>x s p. s \<in> set (map snd props') \<or> additionalProps' = Some (Inr s) \<Longrightarrow> rec x s p = rec' x s p"
  shows "coerceObject rec rt v props required additionalProps opts path =
         coerceObject rec' rt' v' props' required' additionalProps' opts' path'"
  using assms coerceObject_agree [of opts' opts' props' additionalProps' rec rec'] by simp

lemma coerceArray_cong [fundef_cong]:
  assumes "v = v'" and "items = items'" and "path = path'"
    and "\<And>x p. rec x items' p = rec' x items' p"
  shows "coerceArray rec v items path = coerceArray rec' v' items' path'"
  unfolding coerceArray_def assms by (rule refl)

lemma coerceUnion_cong [fundef_cong]:
  assumes "v = v'" and "variants = variants'" and "path = path'"
    and "\<And>s. s \<in> set variants' \<Longrightarrow> rec v' s path' = rec' v' s path'"
  shows "coerceUnion rec v variants path = coerceUnion rec' v' variants' path'"
proof -
  have tries:
    "map (\<lambda>variant. if canHandleValue v' variant then Some (rec v' variant path') else None) variants' =
     map (\<lambda>variant. if canHandleValue v' variant then Some (rec' v' variant path') else None) variants'"
    using assms(4) by simp
  show ?thesis
  proof (cases variants')
    case Nil
    then show ?thesis
      unfolding coerceUnion_def assms(1-3) by simp
  next
    case (Cons variant rest)
    have first: "rec v' variant path' = rec' v' variant path'"
      using assms(4) Cons by simp
    show ?thesis
      unfolding coerceUnion_def assms(1-3) tries
      unfolding Cons list.case first by (rule refl)
  qed
qed

lemma coerceIntersect_cong [fundef_cong]:
  assumes "rt = rt'" and "v = v'" and "allOf = allOf'" and "opts = opts'" and "path = path'"
    and "\<And>x s p. s \<in> set (map snd (mergedProperties allOf')) \<Longrightarrow> rec x s p = rec' x s p"
  shows "coerceIntersect rec rt v allOf opts path = coerceIntersect rec' rt' v' allOf' opts' path'"
  unfolding coerceIntersect_def assms(1-5)
  using coerceObject_agree [of opts' opts' "mergedProperties allOf'" None rec rec'] assms(6) by simp

lemma coerceOptional_cong [fundef_cong]:
  assumes "v = v'" and "inner = inner'" and "path = path'"
    and "rec v' inner' path' = rec' v' inner' path'"
  shows "coerceOptional rec v inner path = coerceOptional rec' v' inner' path'"
  unfolding coerceOptional_def assms by (rule refl)

lemma coerceRecord_cong [fundef_cong]:
  assumes "v = v'" and "patternProps = patternProps'" and "additional = additional'" and "path = path'"
    and "\<And>x p. rec x (recordValueSchema patternProps' additional') p =
                 rec' x (recordValueSchema patternProps' additional') p"
  shows "coerceRecord rec v patternProps additional path = coerceRecord rec' v' patternProps' additional' path'"
  unfolding coerceRecord_def Let_def assms by (rule refl)

lemma tupleElement_cong:
  assumes "\<And>x p. rec x (snd item) p = rec' x (snd item) p"
  shows "tupleElement rec xs path item = tupleElement rec' xs path item"
  using assms by (simp add: tupleElement_def Let_def)

lemma coerceTuple_cong [fundef_cong]:
  assumes "v = v'" and "items = items'" and "additionalItems = additionalItems'" and "path = path'"
    and "\<And>x s p. s \<in> set items' \<Longrightarrow> rec x s p = rec' x s p"
  shows "coerceTuple rec v items additionalItems path = coerceTuple rec' v' items' additionalItems' path'"
proof -
  have elements: "map (tupleElement rec xs path') (enumerate 0 items') =
        map (tupleElement rec' xs path') (enumerate 0 items')" for xs
    by (rule map_cong [OF refl], rule tupleElement_cong)
       (use assms(5) in \<open>auto simp: in_set_enumerate_eq\<close>)
  show ?thesis
    unfolding coerceTuple_def assms(1-4) elements by (rule refl)
qed

text \<open>The sizes the termination of \<open>coerceInternal\<close> rests on.\<close>

lemma size_property:
  "(k, s) \<in> set props \<Longrightarrow> size s < Suc (size_list (size_prod (\<lambda>k. 0) size) props)"
  by (induction props) auto

lemma size_member:
  "s \<in> set ss \<Longrightarrow> size s < Suc (size_list size ss)"
  by (induction ss) auto

lemma setKey_subset:
  "set (setKey acc k v) \<subseteq> insert (k, v) (set acc)"
  by (induction acc) (auto split: if_splits)

lemma assignAll_subset:
  "set (assignAll acc kvs) \<subseteq> set acc \<union> set kvs"
proof (induction kvs arbitrary: acc)
  case Nil
  then show ?case by (simp add: assignAll_def)
next
  case (Cons kv kvs)
  obtain k v where kv: "kv = (k, v)" by (cases kv)
  have "assignAll acc (kv # kvs) = assignAll (if k = ''__proto__'' then acc else setKey acc k v) kvs"
    by (simp add: assignAll_def kv)
  then show ?case
    using Cons.IH [of "setKey acc k v"] Cons.IH [of acc] setKey_subset [of acc k v] kv
    by (cases "k = ''__proto__''") auto
qed

lemma mergedProperties_size:
  assumes "(k, s) \<in> set (mergedProperties allOf)"
  shows "size s < Suc (size_list size allOf)"
proof -
  let ?f = "\<lambda>subSchema merged. case subSchema of TObject d props required addl \<Rightarrow> assignAll merged props
                                | _ \<Rightarrow> merged"
  have "(k, s) \<in> set (fold ?f subs acc) \<Longrightarrow>
        (k, s) \<in> set acc \<or> size s < Suc (size_list size subs)" for subs acc
  proof (induction subs arbitrary: acc)
    case Nil
    then show ?case by simp
  next
    case (Cons sub subs)
    from Cons.IH [of "?f sub acc"] Cons.prems
    consider "(k, s) \<in> set (?f sub acc)" | "size s < Suc (size_list size subs)"
      by auto
    then show ?case
    proof cases
      case 1
      show ?thesis
      proof (cases sub)
        case (TObject d props required addl)
        with 1 assignAll_subset [of acc props]
        have "(k, s) \<in> set acc \<or> (k, s) \<in> set props" by auto
        then show ?thesis
          using size_property [of k s props] TObject by auto
      qed (use 1 in auto)
    next
      case 2
      then show ?thesis by simp
    qed
  qed
  from this [of allOf "[]"] assms show ?thesis
    by (simp add: mergedProperties_def)
qed

fun weight :: "schema \<Rightarrow> nat" where
  \<comment> \<open>the measure of the recursion: the size of the schema, with the \<^verbatim>\<open>Type.Any()\<close>
      that \<^verbatim>\<open>coerceRecord\<close> makes up below every \<^verbatim>\<open>TRecord\<close>\<close>
  "weight (TAny d) = 0"
| "weight s = Suc (size s)"

lemma weight_lessI:
  "size s < n \<Longrightarrow> weight s < Suc n"
  by (cases s) auto

lemma weight_array:
  "weight items < weight (TArray d items)"
  by (simp add: weight_lessI)

lemma weight_optional:
  "weight inner < weight (TOptional d inner)"
  by (simp add: weight_lessI)

lemma weight_tuple:
  "s \<in> set items \<Longrightarrow> weight s < weight (TTuple d items additionalItems)"
  using size_member [of s items] by (simp add: weight_lessI)

lemma weight_union:
  "s \<in> set anyOf \<Longrightarrow> weight s < weight (TUnion d anyOf)"
  using size_member [of s anyOf] by (simp add: weight_lessI)

lemma weight_object:
  assumes "s \<in> set (map snd props) \<or> additionalProps = Some (Inr s)"
  shows "weight s < weight (TObject d props required additionalProps)"
proof -
  from assms consider k where "(k, s) \<in> set props" | "additionalProps = Some (Inr s)"
    by auto
  then show ?thesis
  proof cases
    case 1
    then show ?thesis
      using size_property [of k s props] by (simp add: weight_lessI)
  next
    case 2
    then show ?thesis
      by (simp add: weight_lessI)
  qed
qed

lemma weight_intersect:
  assumes "s \<in> set (map snd (mergedProperties allOf))"
  shows "weight s < weight (TIntersect d allOf)"
proof -
  from assms obtain k where "(k, s) \<in> set (mergedProperties allOf)"
    by auto
  then show ?thesis
    using mergedProperties_size [of k s allOf] by (simp add: weight_lessI)
qed

lemma weight_record:
  "weight (recordValueSchema patternProps additional) < weight (TRecord d patternProps additional)"
proof (cases patternProps)
  case Nil
  then show ?thesis
    by (auto simp: recordValueSchema_def weight_lessI split: option.splits sum.splits)
next
  case (Cons first rest)
  then show ?thesis
    using size_property [of "fst first" "snd first" patternProps]
    by (simp add: recordValueSchema_def weight_lessI)
qed

function coerceInternal :: "host \<Rightarrow> jsval \<Rightarrow> schema \<Rightarrow> options \<Rightarrow> string \<Rightarrow> nat \<Rightarrow> outcome" where
  "coerceInternal rt v schema opts path depth =
     (if depthExceeded rt depth opts then (v, [(''Maximum depth exceeded'', None, None)], [])
      else if v = VNull \<or> v = VUndefined then coerceNull rt v opts path
      else case schema of
        TRef d r \<Rightarrow>
          (v, [], [(if r \<noteq> [] then ''unresolved reference: '' else ''reference coercion: '') @ r])
      | TObject d props required additionalProps \<Rightarrow>
          coerceObject (\<lambda>x s p. coerceInternal rt x s opts p (Suc depth))
            rt v props required additionalProps opts path
      | TArray d items \<Rightarrow>
          coerceArray (\<lambda>x s p. coerceInternal rt x s opts p (Suc depth)) v items path
      | TUnion d anyOf \<Rightarrow>
          coerceUnion (\<lambda>x s p. coerceInternal rt x s opts p depth) v anyOf path
      | TIntersect d allOf \<Rightarrow>
          coerceIntersect (\<lambda>x s p. coerceInternal rt x s opts p (Suc depth)) rt v allOf opts path
      | TOptional d inner \<Rightarrow>
          coerceOptional (\<lambda>x s p. coerceInternal rt x s opts p depth) v inner path
      | TLiteral d expected \<Rightarrow> coerceLiteral rt v expected
      | TEnum d allowed \<Rightarrow> coerceEnum rt v allowed path
      | TString d c \<Rightarrow> coerceString rt v c path
      | TNumber d c \<Rightarrow> coerceNumber rt v False c path
      | TInteger d c \<Rightarrow> coerceNumber rt v True c path
      | TBoolean d \<Rightarrow> coerceBoolean rt v
      | TNull d \<Rightarrow> coerceNull rt v opts path
      | TAny d \<Rightarrow> (v, [], [])
      | TUnknown d \<Rightarrow> (v, [], [])
      | TRecord d patternProps additional \<Rightarrow>
          coerceRecord (\<lambda>x s p. coerceInternal rt x s opts p (Suc depth)) v patternProps additional path
      | TTuple d items additionalItems \<Rightarrow>
          coerceTuple (\<lambda>x s p. coerceInternal rt x s opts p (Suc depth)) v items additionalItems path)"
  by pat_completeness auto
termination
  by (relation "measure (\<lambda>(rt, v, schema, rest). weight schema)")
     (simp_all add: weight_array weight_optional weight_tuple weight_union weight_object
        weight_intersect weight_record del: weight.simps)

declare coerceInternal.simps [simp del]

text \<open>The equation of \<open>coerceInternal\<close>, one case at a time.\<close>

lemma coerceInternal_depth:
  "depthExceeded rt depth opts \<Longrightarrow>
   coerceInternal rt v schema opts path depth = (v, [(''Maximum depth exceeded'', None, None)], [])"
  by (simp add: coerceInternal.simps)

lemma coerceInternal_null:
  "\<not> depthExceeded rt depth opts \<Longrightarrow> v = VNull \<or> v = VUndefined \<Longrightarrow>
   coerceInternal rt v schema opts path depth = coerceNull rt v opts path"
  by (simp add: coerceInternal.simps)

lemma coerceInternal_kind:
  assumes "\<not> depthExceeded rt depth opts" and "v \<noteq> VNull" and "v \<noteq> VUndefined"
  shows "coerceInternal rt v (TRef d r) opts path depth =
           (v, [], [(if r \<noteq> [] then ''unresolved reference: '' else ''reference coercion: '') @ r])"
    and "coerceInternal rt v (TObject d props required additionalProps) opts path depth =
           coerceObject (\<lambda>x s p. coerceInternal rt x s opts p (Suc depth))
             rt v props required additionalProps opts path"
    and "coerceInternal rt v (TArray d items) opts path depth =
           coerceArray (\<lambda>x s p. coerceInternal rt x s opts p (Suc depth)) v items path"
    and "coerceInternal rt v (TUnion d anyOf) opts path depth =
           coerceUnion (\<lambda>x s p. coerceInternal rt x s opts p depth) v anyOf path"
    and "coerceInternal rt v (TIntersect d allOf) opts path depth =
           coerceIntersect (\<lambda>x s p. coerceInternal rt x s opts p (Suc depth)) rt v allOf opts path"
    and "coerceInternal rt v (TOptional d inner) opts path depth =
           coerceOptional (\<lambda>x s p. coerceInternal rt x s opts p depth) v inner path"
    and "coerceInternal rt v (TLiteral d expected) opts path depth = coerceLiteral rt v expected"
    and "coerceInternal rt v (TEnum d allowed) opts path depth = coerceEnum rt v allowed path"
    and "coerceInternal rt v (TString d sc) opts path depth = coerceString rt v sc path"
    and "coerceInternal rt v (TNumber d nc) opts path depth = coerceNumber rt v False nc path"
    and "coerceInternal rt v (TInteger d nc) opts path depth = coerceNumber rt v True nc path"
    and "coerceInternal rt v (TBoolean d) opts path depth = coerceBoolean rt v"
    and "coerceInternal rt v (TNull d) opts path depth = coerceNull rt v opts path"
    and "coerceInternal rt v (TAny d) opts path depth = (v, [], [])"
    and "coerceInternal rt v (TUnknown d) opts path depth = (v, [], [])"
    and "coerceInternal rt v (TRecord d patternProps additional) opts path depth =
           coerceRecord (\<lambda>x s p. coerceInternal rt x s opts p (Suc depth)) v patternProps additional path"
    and "coerceInternal rt v (TTuple d elems additionalItems) opts path depth =
           coerceTuple (\<lambda>x s p. coerceInternal rt x s opts p (Suc depth)) v elems additionalItems path"
  using assms by (simp_all add: coerceInternal.simps [of rt v])

subsection \<open>The entry point of the coercer\<close>

record CoercionResult =
  crValue :: jsval
  crSuccess :: bool
  crErrors :: "CoercionError list"
  crCoercions :: "string list option"
  crIsPartial :: jsval

definition topLevelError :: "host \<Rightarrow> jsval \<Rightarrow> string \<Rightarrow> errorCall \<Rightarrow> CoercionError" where
  \<comment> \<open>the callback \<^verbatim>\<open>addError\<close> of \<^verbatim>\<open>coerceValue\<close>: it closes over the \<^verbatim>\<open>path\<close> and the
      \<^verbatim>\<open>value\<close> of the call of \<^verbatim>\<open>coerceValue\<close>, and pushes
      \<^verbatim>\<open>{ path, message, expected, received: received ?? String(value) }\<close>\<close>
  "topLevelError rt v path call =
     (case call of (msg, expct, rcv) \<Rightarrow>
        \<lparr>errPath = path, errMessage = msg, errExpected = expct,
         errReceived = Some (case rcv of Some given \<Rightarrow> given | None \<Rightarrow> jsString rt v)\<rparr>)"

definition coerceValue :: "host \<Rightarrow> jsval \<Rightarrow> schema \<Rightarrow> options \<Rightarrow> string \<Rightarrow> CoercionResult" where
  \<comment> \<open>the callback \<^verbatim>\<open>addCoercion\<close> of \<^verbatim>\<open>coerceValue\<close> keeps a note only when
      \<^verbatim>\<open>opts.trackCoercions\<close> holds, and the notes are handed out under the same condition\<close>
  "coerceValue rt v schema options path =
     (let opts = defaultOptions ++ options;
          r = coerceInternal rt v schema opts path 0;
          errors = map (topLevelError rt v path) (oerrors r)
      in \<lparr>crValue = ovalue r,
          crSuccess = (length errors = 0),
          crErrors = errors,
          crCoercions = (if truthy (opt opts ''trackCoercions'') then Some (onotes r) else None),
          crIsPartial = (if truthy (opt opts ''allowPartials'') then VBool (\<not> isComplete rt v schema)
                         else opt opts ''allowPartials'')\<rparr>)"

section \<open>The orchestrator\<close>

text \<open>
  \<^verbatim>\<open>parseResponse\<close> of \<^verbatim>\<open>index.ts\<close> composes the chain-of-thought filter, the extractor
  and the coercer. The filter and the extractor of \<^verbatim>\<open>json-extractor.ts\<close> are built on
  regular expressions and on \<^verbatim>\<open>JSON.parse\<close>; they are parameters here. A call of
  \<^verbatim>\<open>extractJson\<close> that throws is \<open>Inl\<close> of the message of the error.
\<close>

record ExtractionResult =
  exValue :: jsval
  exRaw :: string
  exFromMarkdown :: "bool option"
  exFixes :: "string list option"
  exIsPartial :: "bool option"

record extractor =
  extractJson :: "string \<Rightarrow> options \<Rightarrow> bool \<Rightarrow> nat \<Rightarrow> string + ExtractionResult"
  hasChainOfThought :: "string \<Rightarrow> bool"
  filterChainOfThought :: "string \<Rightarrow> string"

record ParseMeta =
  metaRaw :: string
  metaFromMarkdown :: "bool option"
  metaChainOfThoughtFiltered :: bool
  metaFixes :: "string list option"
  metaCoercions :: "string list option"

record ParseResult =
  prSuccess :: bool
  prValue :: jsval
  prErrors :: "(string \<times> string) list"
  prIsPartial :: jsval
  prMeta :: ParseMeta

definition defaultParseOptions :: options where
  \<comment> \<open>the defaults of \<^verbatim>\<open>index.ts\<close>\<close>
  "defaultParseOptions = map_of
     [(''allowMarkdownJson'', VBool True),
      (''allowFixes'', VBool True),
      (''allowAsString'', VBool True),
      (''findAllJsonObjects'', VBool True),
      (''maxDepth'', VNum 100),
      (''allowPartials'', VBool False),
      (''useDefaults'', VBool True),
      (''strict'', VBool False),
      (''trackCoercions'', VBool False),
      (''filterChainOfThought'', VBool True),
      (''returnAllCandidates'', VBool False)]"

definition parseResponse :: "host \<Rightarrow> extractor \<Rightarrow> string \<Rightarrow> schema \<Rightarrow> options \<Rightarrow> ParseResult" where
  "parseResponse rt ex response schema options =
     (let opts = defaultParseOptions ++ options;
          filtering = (truthy (opt opts ''filterChainOfThought'') \<and> hasChainOfThought ex response);
          filtered = (if filtering then filterChainOfThought ex response else response);
          cotFiltered = (if filtering then filtered \<noteq> response else False)
      in case extractJson ex filtered opts True 0 of
           Inl message \<Rightarrow>
             \<lparr>prSuccess = False,
              prValue = VUndefined,
              prErrors = [('''', ''JSON extraction failed: '' @ message)],
              prIsPartial = VBool False,
              prMeta = \<lparr>metaRaw = response, metaFromMarkdown = None,
                        metaChainOfThoughtFiltered = cotFiltered,
                        metaFixes = None, metaCoercions = None\<rparr>\<rparr>
         | Inr extraction \<Rightarrow>
             (let coercion = coerceValue rt (exValue extraction) schema opts ''''
              in \<lparr>prSuccess = crSuccess coercion,
                  prValue = crValue coercion,
                  prErrors = map (\<lambda>e. (errPath e, errMessage e)) (crErrors coercion),
                  prIsPartial = (if truthy (crIsPartial coercion) then crIsPartial coercion else VBool False),
                  prMeta = \<lparr>metaRaw = response, metaFromMarkdown = exFromMarkdown extraction,
                            metaChainOfThoughtFiltered = cotFiltered,
                            metaFixes = exFixes extraction,
                            metaCoercions = crCoercions coercion\<rparr>\<rparr>))"

definition parsePartialResponse :: "host \<Rightarrow> extractor \<Rightarrow> string \<Rightarrow> schema \<Rightarrow> options \<Rightarrow> ParseResult" where
  "parsePartialResponse rt ex partialResponse schema options =
     (let opts = (defaultParseOptions ++ options)
                   (''allowPartials'' \<mapsto> VBool True, ''allowAsString'' \<mapsto> VBool True)
      in parseResponse rt ex partialResponse schema opts)"

section \<open>A host for the examples\<close>

text \<open>
  The examples below need a value for the uninterpreted operations. In this host the
  prototypes have the members that the language standard gives them. \<^verbatim>\<open>JSON.parse\<close>
  rejects every string, \<^verbatim>\<open>parseFloat\<close> reads no number, and the printing operations
  return fixed values; the examples are chosen so that none of these is consulted.
\<close>

definition objectMembers :: "(string \<times> jsval) list" where
  \<comment> \<open>the members of \<^verbatim>\<open>Object.prototype\<close>\<close>
  "objectMembers =
     [(''constructor'', VFunction ''Object''),
      (''hasOwnProperty'', VFunction ''hasOwnProperty''),
      (''isPrototypeOf'', VFunction ''isPrototypeOf''),
      (''propertyIsEnumerable'', VFunction ''propertyIsEnumerable''),
      (''toLocaleString'', VFunction ''toLocaleString''),
      (''toString'', VFunction ''toString''),
      (''valueOf'', VFunction ''valueOf''),
      (''__defineGetter__'', VFunction ''__defineGetter__''),
      (''__defineSetter__'', VFunction ''__defineSetter__''),
      (''__lookupGetter__'', VFunction ''__lookupGetter__''),
      (''__lookupSetter__'', VFunction ''__lookupSetter__''),
      (''__proto__'', VObj [])]"

definition arrayMembers :: "string list" where
  \<comment> \<open>the names of the members of \<^verbatim>\<open>Array.prototype\<close>\<close>
  "arrayMembers =
     [''length'', ''constructor'', ''at'', ''concat'', ''copyWithin'', ''entries'', ''every'', ''fill'',
      ''filter'', ''find'', ''findIndex'', ''findLast'', ''findLastIndex'', ''flat'', ''flatMap'',
      ''forEach'', ''includes'', ''indexOf'', ''join'', ''keys'', ''lastIndexOf'', ''map'', ''pop'',
      ''push'', ''reduce'', ''reduceRight'', ''reverse'', ''shift'', ''slice'', ''some'', ''sort'',
      ''splice'', ''toLocaleString'', ''toReversed'', ''toSorted'', ''toSpliced'', ''toString'',
      ''unshift'', ''values'', ''with'']"

definition exampleHost :: host where
  "exampleHost =
     \<lparr>fracToString = (\<lambda>q. ''?''),
      functionToString = (\<lambda>f. ''function '' @ f @ ''() { [native code] }''),
      jsonParse = (\<lambda>s. None),
      jsonStringify = (\<lambda>v. ''?''),
      regExpTest = (\<lambda>p s. True),
      parseFloat = (\<lambda>s. NaN),
      toNumber = (\<lambda>v. NaN),
      objectPrototype = map_of objectMembers,
      arrayPrototype = (\<lambda>key. key \<in> set arrayMembers)\<rparr>"

definition noConstraints :: numConstraints where
  "noConstraints =
     \<lparr>minimum = None, maximum = None, exclusiveMinimum = None, exclusiveMaximum = None, multipleOf = None\<rparr>"

definition anyString :: strConstraints where
  "anyString = \<lparr>minLength = None, maxLength = None, pattern = None, format = None\<rparr>"

section \<open>Evaluation\<close>

text \<open>The defining equations that evaluate the model on a concrete input.\<close>

lemmas evals =
  coerceValue_def coerceInternal_depth coerceInternal_null coerceInternal_kind
  coerceObject.simps declaredField_def additionalField_def arrayToObject_def
  coerceArray_def coerceUnion_def variantErrors_def coerceIntersect_def mergedProperties_def
  requiredFlags_def typeObjectRequired_def coerceOptional_def recordValueSchema_def coerceRecord_def
  tupleElement_def coerceTuple_def coerceNull_def coerceLiteral_def coerceEnum_def
  coerceString_def validateNumber_def coerceNumber_def coerceBoolean_def
  topLevelError_def isComplete_def isNullable_def isOptionalProperty_def sdefault_def
  fieldPathOf_def assignAll_def ovalue_def oerrors_def onotes_def
  depthExceeded_def opt_def defaultOptions_def map_add_def
  lookupKey_def inPlainObject_def arrayIncludes_def numLessEq_def nearestDouble_def bitLength.simps
  showNat.simps digitChar_def
  toLowerCase_def toLowerChar_def parseInt10_def isWhiteSpace_def isDigit_def digitsValue_def
  exampleHost_def objectMembers_def arrayMembers_def noConstraints_def anyString_def Let_def enumerate_eq_zip

text \<open>
  Depth 0 passes the depth check of \<open>coerceInternal\<close> whenever the caller leaves
  \<^verbatim>\<open>maxDepth\<close> at its default, or gives a limit that is not negative.
\<close>

lemma depth_zero_default:
  "options ''maxDepth'' = None \<Longrightarrow> \<not> depthExceeded rt 0 (defaultOptions ++ options)"
  by (simp add: depthExceeded_def opt_def defaultOptions_def map_add_def)

lemma depth_zero_limit:
  "options ''maxDepth'' = Some (VNum m) \<Longrightarrow> 0 \<le> m \<Longrightarrow> \<not> depthExceeded rt 0 (defaultOptions ++ options)"
  by (simp add: depthExceeded_def opt_def map_add_def)

lemma depth_negative_limit:
  "options ''maxDepth'' = Some (VNum m) \<Longrightarrow> m < 0 \<Longrightarrow> depthExceeded rt 0 (defaultOptions ++ options)"
  by (simp add: depthExceeded_def opt_def map_add_def)

section \<open>The orchestrator: partial parsing\<close>

lemma merge_forced:
  "defaultParseOptions ++ ((defaultParseOptions ++ options)
      (''allowPartials'' \<mapsto> VBool True, ''allowAsString'' \<mapsto> VBool True)) =
   defaultParseOptions ++ (options(''allowPartials'' \<mapsto> VBool True, ''allowAsString'' \<mapsto> VBool True))"
  by (rule ext) (simp add: map_add_def split: option.splits)

text \<open>
  Claim C8. For every response, schema and options, \<^verbatim>\<open>parsePartialResponse\<close> returns
  exactly the \<^verbatim>\<open>ParseResult\<close> that \<^verbatim>\<open>parseResponse\<close> returns on the same response and
  schema with the options in which \<^verbatim>\<open>allowPartials\<close> and \<^verbatim>\<open>allowAsString\<close> are set to
  \<^verbatim>\<open>true\<close> and every other option is unchanged. The statement holds for every filter and
  extractor, and for every host.
\<close>

theorem parsePartialResponse_forces_options:
  "parsePartialResponse rt ex response schema options =
   parseResponse rt ex response schema
     (options(''allowPartials'' \<mapsto> VBool True, ''allowAsString'' \<mapsto> VBool True))"
  unfolding parsePartialResponse_def Let_def
  by (simp only: parseResponse_def merge_forced)

section \<open>Null at the top level\<close>

text \<open>
  Claim C9, as stated, fails under a negative depth limit: it speaks of every call that
  leaves \<^verbatim>\<open>allowPartials\<close> at its default, and the first check of \<^verbatim>\<open>coerceInternal\<close>,
  \<^verbatim>\<open>depth > options.maxDepth\<close>, comes before the check for \<^verbatim>\<open>null\<close>. With
  \<^verbatim>\<open>maxDepth = -1\<close> a \<^verbatim>\<open>null\<close> input comes back with the error
  \<^verbatim>\<open>Maximum depth exceeded\<close>.
\<close>

theorem top_level_null_counterexample:
  "coerceValue exampleHost VNull (TString None anyString) (Map.empty(''maxDepth'' \<mapsto> VNum (- 1))) '''' =
   \<lparr>crValue = VNull,
    crSuccess = False,
    crErrors = [\<lparr>errPath = '''', errMessage = ''Maximum depth exceeded'',
                 errExpected = None, errReceived = Some ''null''\<rparr>],
    crCoercions = None,
    crIsPartial = VBool False\<rparr>"
  by (simp add: evals)

text \<open>
  Claim C9, amended. For a \<^verbatim>\<open>null\<close> or \<^verbatim>\<open>undefined\<close> input and any schema whatsoever, a
  call of \<^verbatim>\<open>coerceValue\<close> that leaves \<^verbatim>\<open>allowPartials\<close> at its default and passes the
  depth check at depth 0 returns the value \<^verbatim>\<open>null\<close> with an empty error list, so
  \<^verbatim>\<open>success\<close> is \<^verbatim>\<open>true\<close>, and \<^verbatim>\<open>isPartial\<close> is \<^verbatim>\<open>false\<close>: a top-level null is never a
  type mismatch or a missing value. Every call passes the depth check at depth 0 whose
  \<^verbatim>\<open>maxDepth\<close> is the default or not negative (\<open>depth_zero_default\<close>,
  \<open>depth_zero_limit\<close>).
\<close>

theorem top_level_null_is_accepted:
  assumes "v = VNull \<or> v = VUndefined"
    and "\<not> depthExceeded rt 0 (defaultOptions ++ options)"
    and "options ''allowPartials'' = None"
  shows "coerceValue rt v schema options path =
         \<lparr>crValue = VNull, crSuccess = True, crErrors = [],
          crCoercions = (if truthy (opt (defaultOptions ++ options) ''trackCoercions'') then Some [] else None),
          crIsPartial = VBool False\<rparr>"
proof -
  have "coerceInternal rt v schema (defaultOptions ++ options) path 0 = (VNull, [], [])"
    using assms(1,2) by (auto simp: coerceInternal_null coerceNull_def)
  moreover have "opt (defaultOptions ++ options) ''allowPartials'' = VBool False"
    using assms(3) by (simp add: opt_def map_add_def defaultOptions_def)
  ultimately show ?thesis
    by (simp add: coerceValue_def Let_def ovalue_def oerrors_def onotes_def)
qed

text \<open>
  The witness: \<^verbatim>\<open>null\<close> against an object schema with a required field, under the
  default options.
\<close>

theorem top_level_null_is_accepted_witness:
  "(VNull = VNull \<or> VNull = VUndefined) \<and>
   \<not> depthExceeded exampleHost 0 (defaultOptions ++ Map.empty) \<and>
   (Map.empty :: options) ''allowPartials'' = None \<and>
   coerceValue exampleHost VNull
     (TObject None [(''name'', TString None anyString)] [''name''] None) Map.empty '''' =
     \<lparr>crValue = VNull, crSuccess = True, crErrors = [], crCoercions = None, crIsPartial = VBool False\<rparr>"
  using top_level_null_is_accepted
          [of VNull exampleHost Map.empty "TObject None [(''name'', TString None anyString)] [''name''] None" "''''"]
  by (simp add: depthExceeded_def opt_def defaultOptions_def map_add_def)

section \<open>Errors and their paths\<close>

text \<open>
  Claim C3. Coercing \<^verbatim>\<open>{"age": -5}\<close> against \<^verbatim>\<open>Object{age: Number(minimum=0)}\<close> with
  \<^verbatim>\<open>age\<close> required yields \<^verbatim>\<open>success = false\<close> and a minimum violation annotated with the
  path \<^verbatim>\<open>age\<close>. The code yields \<^verbatim>\<open>success = false\<close> and the minimum violation, but
  annotates it with the path of the call of \<^verbatim>\<open>coerceValue\<close>, which is empty:
  \<^verbatim>\<open>coerceObject\<close> computes \<^verbatim>\<open>fieldPath\<close> and passes it down, \<^verbatim>\<open>validateNumber\<close>
  receives it as \<^verbatim>\<open>_path\<close> and never uses it, and \<^verbatim>\<open>addError\<close> pushes the \<^verbatim>\<open>path\<close> it
  closed over. The theorem evaluates the code at this input.
\<close>

theorem out_of_range_error_path:
  "coerceValue exampleHost (VObj [(''age'', VNum (- 5))])
     (TObject None [(''age'', TNumber None (noConstraints\<lparr>minimum := Some 0\<rparr>))] [''age''] None)
     Map.empty '''' =
   \<lparr>crValue = VObj [(''age'', VNum (- 5))],
    crSuccess = False,
    crErrors = [\<lparr>errPath = '''', errMessage = ''Number below minimum (0)'',
                 errExpected = Some ''>= 0'', errReceived = Some ''-5''\<rparr>],
    crCoercions = None,
    crIsPartial = VBool False\<rparr>"
  by (simp add: evals)

section \<open>Union selection\<close>

text \<open>
  Claim C2. The coercer accumulates all errors of the walk into the returned list; for a
  union where no admissible alternative coerces without error, the errors of the
  alternative chosen as best appear in the result, so that \<^verbatim>\<open>success\<close> is \<^verbatim>\<open>false\<close>,
  next to the note that records the number of errors of the chosen variant. The code
  collects the errors of each variant in the private buffer \<^verbatim>\<open>variantErrors\<close>, keeps
  only their count in \<^verbatim>\<open>bestResult\<close>, and returns the best value without handing any of
  them to \<^verbatim>\<open>addError\<close>. The theorem evaluates the code on the string \<^verbatim>\<open>"hi"\<close> against
  the union of \<^verbatim>\<open>String(minLength=3)\<close> and \<^verbatim>\<open>Number\<close>: the string alternative is the
  only admissible one and alone reports \<^verbatim>\<open>String too short\<close>; the union reports
  nothing and succeeds.
\<close>

theorem union_best_variant_errors_dropped:
  "coerceValue exampleHost (VStr ''hi'')
     (TUnion None [TString None (anyString\<lparr>minLength := Some 3\<rparr>), TNumber None noConstraints])
     (Map.empty(''trackCoercions'' \<mapsto> VBool True)) '''' =
   \<lparr>crValue = VStr ''hi'',
    crSuccess = True,
    crErrors = [],
    crCoercions = Some [''selected union variant with 1 errors at ''],
    crIsPartial = VBool False\<rparr> \<and>
   crErrors (coerceValue exampleHost (VStr ''hi'') (TString None (anyString\<lparr>minLength := Some 3\<rparr>))
     (Map.empty(''trackCoercions'' \<mapsto> VBool True)) '''') =
   [\<lparr>errPath = '''', errMessage = ''String too short (min 3)'',
     errExpected = Some ''minLength 3'', errReceived = Some ''2''\<rparr>]"
  by (simp add: evals)

section \<open>Scalar targets\<close>


subsection \<open>Boolean\<close>





subsection \<open>String\<close>

definition violatedConstraints :: "host \<Rightarrow> strConstraints \<Rightarrow> string \<Rightarrow> string list" where
  \<comment> \<open>the constraints among \<^verbatim>\<open>minLength\<close>, \<^verbatim>\<open>maxLength\<close> and \<^verbatim>\<open>pattern\<close> that a string
      violates; an empty \<^verbatim>\<open>pattern\<close> constrains nothing\<close>
  "violatedConstraints rt c s =
     (case minLength c of Some m \<Rightarrow> if of_nat (length s) < m then [''minLength''] else [] | None \<Rightarrow> []) @
     (case maxLength c of Some m \<Rightarrow> if m < of_nat (length s) then [''maxLength''] else [] | None \<Rightarrow> []) @
     (case pattern c of Some p \<Rightarrow> if p \<noteq> [] \<and> \<not> regExpTest rt p s then [''pattern''] else []
      | None \<Rightarrow> [])"

definition reportedConstraint :: "CoercionError \<Rightarrow> string" where
  \<comment> \<open>the constraint an error names: the first word of its \<^verbatim>\<open>expected\<close> field\<close>
  "reportedConstraint e =
     (case errExpected e of Some x \<Rightarrow> takeWhile (\<lambda>ch. ch \<noteq> CHR '' '') x | None \<Rightarrow> [])"

text \<open>
  Claim C4, as stated, fails on \<^verbatim>\<open>format\<close>: \<^verbatim>\<open>coerceString\<close> checks \<^verbatim>\<open>minLength\<close>,
  \<^verbatim>\<open>maxLength\<close> and \<^verbatim>\<open>pattern\<close> and never reads \<^verbatim>\<open>format\<close>, so a string that is no
  e-mail address passes a schema whose format is \<^verbatim>\<open>email\<close> without any error.
\<close>

theorem string_format_counterexample:
  "\<not> (crErrors (coerceValue exampleHost (VStr ''not an e-mail address'')
          (TString None (anyString\<lparr>format := Some ''email''\<rparr>)) Map.empty '''') \<noteq> [])"
  by (simp add: evals)

text \<open>
  Claim C4, amended. For a String target and any string input, \<^verbatim>\<open>coerceValue\<close> returns
  the string unchanged, and each violated constraint among \<^verbatim>\<open>minLength\<close>, \<^verbatim>\<open>maxLength\<close>
  and \<^verbatim>\<open>pattern\<close> adds one error to the error list without rejecting or replacing the
  value: the errors name the violated constraints, one each and in this order, and
  \<^verbatim>\<open>success\<close> holds when none is violated. A declared \<^verbatim>\<open>format\<close> is not checked: the
  result is the same with any other format, or none. The call is one that passes the
  depth check at depth 0.
\<close>

theorem string_target:
  assumes "\<not> depthExceeded rt 0 (defaultOptions ++ options)"
  shows
    "crValue (coerceValue rt (VStr s) (TString d c) options path) = VStr s \<and>
     map reportedConstraint (crErrors (coerceValue rt (VStr s) (TString d c) options path)) =
       violatedConstraints rt c s \<and>
     crSuccess (coerceValue rt (VStr s) (TString d c) options path) = (violatedConstraints rt c s = []) \<and>
     coerceValue rt (VStr s) (TString d (c\<lparr>format := f\<rparr>)) options path =
       coerceValue rt (VStr s) (TString d c) options path"
proof -
  have kind: "coerceInternal rt (VStr s) (TString d c') (defaultOptions ++ options) path 0 =
      coerceString rt (VStr s) c' path" for c'
    using assms by (simp add: coerceInternal_kind)
  have same: "coerceString rt (VStr s) (c\<lparr>format := f\<rparr>) path = coerceString rt (VStr s) c path"
    by (simp add: coerceString_def)
  have unchanged: "ovalue (coerceString rt (VStr s) c path) = VStr s"
    by (simp add: coerceString_def ovalue_def)
  have named: "map reportedConstraint
        (map (topLevelError rt (VStr s) path) (oerrors (coerceString rt (VStr s) c path))) =
      violatedConstraints rt c s"
    by (simp add: coerceString_def oerrors_def violatedConstraints_def reportedConstraint_def
          topLevelError_def split: option.splits)
  then have "length (oerrors (coerceString rt (VStr s) c path)) = length (violatedConstraints rt c s)"
    using length_map [of reportedConstraint] length_map [of "topLevelError rt (VStr s) path"] by metis
  then have success: "(oerrors (coerceString rt (VStr s) c path) = []) = (violatedConstraints rt c s = [])"
    by (simp flip: length_0_conv)
  show ?thesis
    using unchanged named success by (simp add: coerceValue_def Let_def kind same isComplete_def)
qed

theorem string_target_witness:
  "\<not> depthExceeded exampleHost 0 (defaultOptions ++ Map.empty) \<and>
   crValue (coerceValue exampleHost (VStr ''hi'')
      (TString None (anyString\<lparr>minLength := Some 3, maxLength := Some 10\<rparr>)) Map.empty '''') = VStr ''hi'' \<and>
   map reportedConstraint (crErrors (coerceValue exampleHost (VStr ''hi'')
      (TString None (anyString\<lparr>minLength := Some 3, maxLength := Some 10\<rparr>)) Map.empty '''')) =
     [''minLength''] \<and>
   crSuccess (coerceValue exampleHost (VStr ''hi'')
      (TString None (anyString\<lparr>minLength := Some 3, maxLength := Some 10\<rparr>)) Map.empty '''') = False"
  using string_target
          [of exampleHost Map.empty "''hi''" None "anyString\<lparr>minLength := Some 3, maxLength := Some 10\<rparr>" "''''"]
  by (simp add: depthExceeded_def opt_def defaultOptions_def map_add_def violatedConstraints_def
        anyString_def)

subsection \<open>Number and Integer\<close>












section \<open>Completeness\<close>





section \<open>The options the walk reads\<close>

definition sameWalkOptions :: "options \<Rightarrow> options \<Rightarrow> bool" where
  \<comment> \<open>two options objects that agree on the three options \<open>coerceInternal\<close> and the
      coercers below it read\<close>
  "sameWalkOptions opts opts' =
     (opt opts ''maxDepth'' = opt opts' ''maxDepth'' \<and>
      opt opts ''useDefaults'' = opt opts' ''useDefaults'' \<and>
      opt opts ''allowPartials'' = opt opts' ''allowPartials'')"

lemma coerceInternal_options:
  assumes "sameWalkOptions opts opts'"
  shows "coerceInternal rt v schema opts path depth = coerceInternal rt v schema opts' path depth"
  using assms
proof (induction rt v schema opts path depth rule: coerceInternal.induct)
  case (1 rt v schema opts path depth)
  note same = "1.prems"
  have defaults: "opt opts ''useDefaults'' = opt opts' ''useDefaults''"
    and partials: "opt opts ''allowPartials'' = opt opts' ''allowPartials''"
    using same by (simp_all add: sameWalkOptions_def)
  have depth: "depthExceeded rt depth opts' = depthExceeded rt depth opts"
    using same by (simp add: depthExceeded_def sameWalkOptions_def)
  show ?case
  proof (cases "depthExceeded rt depth opts")
    case True
    then show ?thesis
      using depth by (simp add: coerceInternal_depth)
  next
    case ok: False
    then have ok': "\<not> depthExceeded rt depth opts'"
      using depth by simp
    show ?thesis
    proof (cases "v = VNull \<or> v = VUndefined")
      case True
      then show ?thesis
        using ok ok' partials by (simp add: coerceInternal_null coerceNull_def)
    next
      case present: False
      then have nn: "v \<noteq> VNull" "v \<noteq> VUndefined"
        by auto
      note kind = coerceInternal_kind [OF ok nn]
      note kind' = coerceInternal_kind [OF ok' nn]
      show ?thesis
      proof (cases schema)
        case (TArray d items)
        have "coerceArray (\<lambda>x s p. coerceInternal rt x s opts p (Suc depth)) v items path =
              coerceArray (\<lambda>x s p. coerceInternal rt x s opts' p (Suc depth)) v items path"
          by (rule coerceArray_cong) (simp_all add: "1.IH"(1) [OF ok present TArray same])
        then show ?thesis
          by (simp only: TArray kind kind')
      next
        case (TTuple d elems additionalItems)
        have "coerceTuple (\<lambda>x s p. coerceInternal rt x s opts p (Suc depth)) v elems additionalItems path =
              coerceTuple (\<lambda>x s p. coerceInternal rt x s opts' p (Suc depth)) v elems additionalItems path"
          by (rule coerceTuple_cong) (simp_all add: "1.IH"(2) [OF ok present TTuple _ same])
        then show ?thesis
          by (simp only: TTuple kind kind')
      next
        case (TObject d props required additionalProps)
        have "coerceObject (\<lambda>x s p. coerceInternal rt x s opts p (Suc depth))
                rt v props required additionalProps opts path =
              coerceObject (\<lambda>x s p. coerceInternal rt x s opts' p (Suc depth))
                rt v props required additionalProps opts' path"
          by (rule coerceObject_agree [OF defaults partials])
             (rule "1.IH"(3) [OF ok present TObject _ same])
        then show ?thesis
          by (simp only: TObject kind kind')
      next
        case (TRecord d patternProps additional)
        have "coerceRecord (\<lambda>x s p. coerceInternal rt x s opts p (Suc depth)) v patternProps additional path =
              coerceRecord (\<lambda>x s p. coerceInternal rt x s opts' p (Suc depth)) v patternProps additional path"
          by (rule coerceRecord_cong) (simp_all add: "1.IH"(4) [OF ok present TRecord same])
        then show ?thesis
          by (simp only: TRecord kind kind')
      next
        case (TUnion d anyOf)
        have "coerceUnion (\<lambda>x s p. coerceInternal rt x s opts p depth) v anyOf path =
              coerceUnion (\<lambda>x s p. coerceInternal rt x s opts' p depth) v anyOf path"
          by (rule coerceUnion_cong) (simp_all add: "1.IH"(5) [OF ok present TUnion _ same])
        then show ?thesis
          by (simp only: TUnion kind kind')
      next
        case (TIntersect d allOf)
        have "coerceIntersect (\<lambda>x s p. coerceInternal rt x s opts p (Suc depth)) rt v allOf opts path =
              coerceIntersect (\<lambda>x s p. coerceInternal rt x s opts' p (Suc depth)) rt v allOf opts' path"
          unfolding coerceIntersect_def
          using coerceObject_agree [OF defaults partials,
                  of "mergedProperties allOf" None
                     "\<lambda>x s p. coerceInternal rt x s opts p (Suc depth)"
                     "\<lambda>x s p. coerceInternal rt x s opts' p (Suc depth)"]
                "1.IH"(6) [OF ok present TIntersect _ same]
          by simp
        then show ?thesis
          by (simp only: TIntersect kind kind')
      next
        case (TOptional d inner)
        have "coerceOptional (\<lambda>x s p. coerceInternal rt x s opts p depth) v inner path =
              coerceOptional (\<lambda>x s p. coerceInternal rt x s opts' p depth) v inner path"
          by (rule coerceOptional_cong) (simp_all add: "1.IH"(7) [OF ok present TOptional same])
        then show ?thesis
          by (simp only: TOptional kind kind')
      next
        case (TNull d)
        then show ?thesis
          using partials by (simp add: kind kind' coerceNull_def)
      qed (simp_all add: kind kind')
    qed
  qed
qed

text \<open>
  Claim C7. The \<^verbatim>\<open>strict\<close> option has no effect on coercion: for every input value,
  schema and options, \<^verbatim>\<open>coerceValue\<close> with \<^verbatim>\<open>strict = true\<close> returns exactly the result
  (value, success, errors, coercions, isPartial) that it returns with \<^verbatim>\<open>strict = false\<close>,
  so the lossy scalar conversions are applied alike in both modes. The statement
  holds for every host and every path.
\<close>

theorem strict_has_no_effect:
  "coerceValue rt v schema (options(''strict'' \<mapsto> VBool True)) path =
   coerceValue rt v schema (options(''strict'' \<mapsto> VBool False)) path"
proof -
  let ?strict = "defaultOptions ++ options(''strict'' \<mapsto> VBool True)"
  let ?lenient = "defaultOptions ++ options(''strict'' \<mapsto> VBool False)"
  have other: "k \<noteq> ''strict'' \<Longrightarrow> opt ?strict k = opt ?lenient k" for k
    by (simp add: opt_def)
  have "sameWalkOptions ?strict ?lenient"
    unfolding sameWalkOptions_def by (intro conjI other) simp_all
  then have walk: "coerceInternal rt v schema ?strict path 0 = coerceInternal rt v schema ?lenient path 0"
    by (rule coerceInternal_options)
  have track: "opt ?strict ''trackCoercions'' = opt ?lenient ''trackCoercions''"
    by (rule other) simp
  have partials: "opt ?strict ''allowPartials'' = opt ?lenient ''allowPartials''"
    by (rule other) simp
  show ?thesis
    unfolding coerceValue_def Let_def walk track partials by (rule refl)
qed

text \<open>
  An instance: the string \<^verbatim>\<open>"42"\<close> is parsed to the integer 42 under \<^verbatim>\<open>strict = true\<close>
  as well.
\<close>

theorem strict_has_no_effect_witness:
  "coerceValue exampleHost (VObj [(''count'', VStr ''42'')])
     (TObject None [(''count'', TInteger None noConstraints)] [''count''] None)
     (Map.empty(''strict'' \<mapsto> VBool True)) '''' =
   coerceValue exampleHost (VObj [(''count'', VStr ''42'')])
     (TObject None [(''count'', TInteger None noConstraints)] [''count''] None)
     (Map.empty(''strict'' \<mapsto> VBool False)) '''' \<and>
   crValue (coerceValue exampleHost (VObj [(''count'', VStr ''42'')])
     (TObject None [(''count'', TInteger None noConstraints)] [''count''] None)
     (Map.empty(''strict'' \<mapsto> VBool True)) '''') = VObj [(''count'', VNum 42)]"
  using strict_has_no_effect
          [of exampleHost "VObj [(''count'', VStr ''42'')]"
              "TObject None [(''count'', TInteger None noConstraints)] [''count''] None" Map.empty "''''"]
  by (simp add: evals)

section \<open>Union order\<close>





end
